theory Spec2Isabelle
  imports Complex_Main
begin

section \<open>Python values, exceptions and sequencing\<close>

text \<open>
  The tool is Python 2.7 code that drives a GIS platform (\<^verbatim>\<open>arcpy\<close>) and a dataframe
  library (\<^verbatim>\<open>pandas\<close>). Exceptions are values of the type \<open>error\<close>; a method that can
  raise returns \<open>error + 'a\<close> with \<open>Inl\<close> for the exception.
\<close>

datatype error = KeyError | AttributeError | TypeError | RuntimeError | ExecuteError

text \<open>
  A float64 is modelled without rounding: a finite value is an exact real, and the three
  non-finite values that a division by zero or a difference of infinities produces are
  kept apart. Signed zeros are not distinguished.
\<close>

datatype pyfloat = Fin real | PosInf | NegInf | NaN

text \<open>A cell of an attribute table or of a dataframe: NULL/None, a number or a text.\<close>

datatype val = Null | Num pyfloat | Str string

text \<open>Float division as numpy does it on a column: no exception, \<open>inf\<close> or \<open>nan\<close> on a zero divisor.\<close>

definition py_fdiv :: "real \<Rightarrow> real \<Rightarrow> pyfloat" where
  "py_fdiv a b =
     (if b \<noteq> 0 then Fin (a / b)
      else if 0 < a then PosInf else if a < 0 then NegInf else NaN)"

fun py_fsub :: "pyfloat \<Rightarrow> pyfloat \<Rightarrow> pyfloat" where
  "py_fsub NaN _ = NaN"
| "py_fsub _ NaN = NaN"
| "py_fsub (Fin a) (Fin b) = Fin (a - b)"
| "py_fsub (Fin a) PosInf = NegInf"
| "py_fsub (Fin a) NegInf = PosInf"
| "py_fsub PosInf PosInf = NaN"
| "py_fsub PosInf _ = PosInf"
| "py_fsub NegInf NegInf = NaN"
| "py_fsub NegInf _ = NegInf"

fun py_fabs :: "pyfloat \<Rightarrow> pyfloat" where
  "py_fabs (Fin a) = Fin \<bar>a\<bar>"
| "py_fabs PosInf = PosInf"
| "py_fabs NegInf = PosInf"
| "py_fabs NaN = NaN"

text \<open>
  Statements that change the GIS workspace, the map document or the output folder are
  functions from the state to a result and the new state. An exception keeps the state
  reached when it was raised and skips the rest.
\<close>

type_synonym ('a, 's) prog = "'s \<Rightarrow> (error + 'a) \<times> 's"

definition ret :: "'a \<Rightarrow> ('a, 's) prog" where
  "ret a = (\<lambda>s. (Inr a, s))"

definition raise :: "error \<Rightarrow> ('a, 's) prog" where
  "raise e = (\<lambda>s. (Inl e, s))"

definition bindE :: "('a, 's) prog \<Rightarrow> ('a \<Rightarrow> ('b, 's) prog) \<Rightarrow> ('b, 's) prog" where
  "bindE m f = (\<lambda>s. case m s of (Inl e, s') \<Rightarrow> (Inl e, s') | (Inr a, s') \<Rightarrow> f a s')"

definition liftE :: "error + 'a \<Rightarrow> ('a, 's) prog" where
  "liftE r = (\<lambda>s. (r, s))"

definition reading :: "('s \<Rightarrow> error + 'a) \<Rightarrow> ('a, 's) prog" where
  "reading f = (\<lambda>s. (f s, s))"

definition modify :: "('s \<Rightarrow> 's) \<Rightarrow> (unit, 's) prog" where
  "modify f = (\<lambda>s. (Inr (), f s))"

subsection \<open>Strings and paths\<close>

definition digit_char :: "nat \<Rightarrow> char" where
  "digit_char d = ''0123456789'' ! d"

fun str_nat :: "nat \<Rightarrow> string" where
  "str_nat n = (if n < 10 then [digit_char n] else str_nat (n div 10) @ [digit_char (n mod 10)])"

declare str_nat.simps [simp del]

text \<open>\<^verbatim>\<open>str(i)\<close> of an integer: its decimal digits, after a minus sign when negative.\<close>

definition str_int :: "int \<Rightarrow> string" where
  "str_int i = (if i < 0 then CHR ''-'' # str_nat (nat (- i)) else str_nat (nat i))"

text \<open>\<^verbatim>\<open>int(x)\<close> of a float truncates towards zero.\<close>

definition py_int :: "real \<Rightarrow> int" where
  "py_int x = (if 0 \<le> x then \<lfloor>x\<rfloor> else \<lceil>x\<rceil>)"

text \<open>\<^verbatim>\<open>'{:<n}'.format(s)\<close>: pad on the right with blanks, never cut.\<close>

definition ljust :: "nat \<Rightarrow> string \<Rightarrow> string" where
  "ljust n s = s @ replicate (n - length s) CHR '' ''"

fun str_join :: "string \<Rightarrow> string list \<Rightarrow> string" where
  "str_join sep [] = []"
| "str_join sep [x] = x"
| "str_join sep (x # y # ys) = x @ sep @ str_join sep (y # ys)"

definition is_sep :: "char \<Rightarrow> bool" where
  "is_sep c \<longleftrightarrow> c = CHR 0x5C \<or> c = CHR ''/''"

text \<open>
  \<^verbatim>\<open>os.path.join(a, b)\<close> of the Windows path module, for a second component that is a
  plain name (no drive, no leading separator), which is what every call site passes.
\<close>

definition os_path_join :: "string \<Rightarrow> string \<Rightarrow> string" where
  "os_path_join a b =
     (if a = [] then b
      else if is_sep (last a) \<or> last a = CHR '':'' then a @ b
      else a @ CHR 0x5C # b)"

definition splitdrive :: "string \<Rightarrow> string \<times> string" where
  "splitdrive p = (if take 1 (drop 1 p) = '':'' then (take 2 p, drop 2 p) else ([], p))"

text \<open>\<^verbatim>\<open>os.path.split(p)\<close>: the part after the last separator, and what is before it.\<close>

definition os_path_split :: "string \<Rightarrow> string \<times> string" where
  "os_path_split p0 =
     (let (d, p) = splitdrive p0;
          tail = rev (takeWhile (\<lambda>c. \<not> is_sep c) (rev p));
          head = rev (dropWhile (\<lambda>c. \<not> is_sep c) (rev p));
          head2 = rev (dropWhile is_sep (rev head))
      in (d @ (if head2 = [] then head else head2), tail))"

section \<open>MapSession.get\_map\_scale\<close>

definition scaleround :: "(nat \<times> int) list" where
  "scaleround = [(9, 1000000), (8, 250000), (7, 100000), (6, 5000), (5, 2500),
                 (4, 250), (3, 25), (2, 5), (1, 1)]"

text \<open>
  \<^verbatim>\<open>clen = len(str(int(current_scale)))\<close>, then
  \<^verbatim>\<open>int(math.ceil(float(current_scale) / float(scaleround[clen]))) * scaleround[clen]\<close>.
  The dictionary lookup raises \<open>KeyError\<close> for a length that is not a key.
\<close>

definition get_map_scale :: "real \<Rightarrow> error + int" where
  "get_map_scale current_scale =
     (let clen = length (str_int (py_int current_scale))
      in case map_of scaleround clen of
           None \<Rightarrow> Inl KeyError
         | Some r \<Rightarrow> Inr (\<lceil>current_scale / real_of_int r\<rceil> * r))"

text \<open>
  The rounding unit per digit count, and "the integer \<open>i\<close> has \<open>n\<close> decimal digits", as the
  description of the scale rounding words them.
\<close>

definition round_unit :: "nat \<Rightarrow> int" where
  "round_unit n = (if n = 1 then 1 else if n = 2 then 5 else if n = 3 then 25
     else if n = 4 then 250 else if n = 5 then 2500 else if n = 6 then 5000
     else if n = 7 then 100000 else if n = 8 then 250000 else 1000000)"

definition has_digits :: "int \<Rightarrow> nat \<Rightarrow> bool" where
  "has_digits i n \<longleftrightarrow> (if n = 1 then 0 \<le> i else 10 ^ (n - 1) \<le> i) \<and> i < 10 ^ n"

section \<open>The GIS platform as the tool uses it\<close>

text \<open>
  The platform's geometry engine, map layout and file formats are not part of the
  repository. What the tool relies on is written here as plain data and functions: a
  dataset (feature class or table) is a list of field definitions and a list of rows; a
  row carries its attribute values and, for a feature, a geometry of an arbitrary type
  \<open>'g\<close>. The geometric primitives themselves are parameters, collected in the record
  \<open>gis\<close>.
\<close>

record field_def =
  field_name :: string
  field_type :: string
  field_alias :: "string option"
  field_length :: "nat option"
  field_precision :: "nat option"
  field_scale :: "nat option"

record 'g feature =
  attrs :: "(string \<times> val) list"
  shape :: "'g option"

record 'g table =
  schema :: "field_def list"
  rows :: "'g feature list"

record 'g gis =
  g_intersects :: "'g \<Rightarrow> 'g \<Rightarrow> bool"
  g_buffer :: "string \<Rightarrow> 'g list \<Rightarrow> 'g"
  g_intersect :: "'g \<Rightarrow> 'g \<Rightarrow> 'g list"
  g_length :: "'g \<Rightarrow> real"
  g_area :: "'g \<Rightarrow> real"
  g_scale :: "'g list \<Rightarrow> real"

text \<open>
  \<open>g_intersects a b\<close>: the spatial relationship INTERSECT;
  \<open>g_buffer d gs\<close>: the buffer of distance \<open>d\<close> around \<open>gs\<close>, both sides, round ends,
  all of it dissolved into one geometry;
  \<open>g_intersect a b\<close>: the parts of \<open>a\<close> that lie in \<open>b\<close> (none when they do not overlap);
  \<open>g_length\<close>, \<open>g_area\<close>: the values of the cursor tokens \<^verbatim>\<open>SHAPE@LENGTH\<close> and
  \<^verbatim>\<open>SHAPE@AREA\<close>; \<open>g_scale\<close>: the scale at which a data frame shows an extent.
\<close>

text \<open>The map document behind \<^verbatim>\<open>MapSession\<close>: data frames, their layers, text elements.\<close>

record layer =
  workspace_path :: string
  dataset_name :: string

record 'g data_frame =
  extent :: "'g list"
  scale :: real

record 'g mapdoc =
  data_frames :: "(string \<times> 'g data_frame) list"
  layers :: "(string \<times> (string \<times> layer) list) list"
  elements :: "(string \<times> string) list"

datatype 'g out_file = PDF "'g mapdoc" | MXD "'g mapdoc"

text \<open>The four stages that \<^verbatim>\<open>run\<close> calls; \<open>calls\<close> below records each call as it is made.\<close>

datatype stage = RunSpatialAnalysis | RunSummaryAnalysis | ExportResultsTable | GeneratePdfMxd

record 'g world =
  datasets :: "(string \<times> 'g table) list"
  workspaces :: "string list"
  mxd :: "'g mapdoc"
  files :: "(string \<times> 'g out_file) list"
  calls :: "stage list"

subsection \<open>Dictionaries and attribute rows\<close>

definition dict_get :: "(string \<times> 'a) list \<Rightarrow> string \<Rightarrow> error + 'a" where
  "dict_get d k = (case map_of d k of None \<Rightarrow> Inl KeyError | Some v \<Rightarrow> Inr v)"

fun dict_set :: "string \<Rightarrow> 'a \<Rightarrow> (string \<times> 'a) list \<Rightarrow> (string \<times> 'a) list" where
  "dict_set k v [] = [(k, v)]"
| "dict_set k v ((k', v') # d) = (if k' = k then (k, v) # d else (k', v') # dict_set k v d)"

definition attr_of :: "'g feature \<Rightarrow> string \<Rightarrow> val" where
  "attr_of f n = (case map_of (attrs f) n of None \<Rightarrow> Null | Some v \<Rightarrow> v)"

definition set_field :: "string \<Rightarrow> val \<Rightarrow> 'g feature \<Rightarrow> 'g feature" where
  "set_field n v f = f\<lparr>attrs := dict_set n v (attrs f)\<rparr>"

definition field_names :: "'g table \<Rightarrow> string list" where
  "field_names t = map field_name (schema t)"

fun shapes_of :: "'g feature list \<Rightarrow> 'g list" where
  "shapes_of [] = []"
| "shapes_of (f # fs) = (case shape f of None \<Rightarrow> shapes_of fs | Some g \<Rightarrow> g # shapes_of fs)"

subsection \<open>Geoprocessing tools\<close>

text \<open>
  \<^verbatim>\<open>arcpy.env.overwriteOutput = True\<close>: an output written to an existing path replaces
  what was there. System-managed fields (object ids, the FID columns of an overlay) are
  left out of the schemas.
\<close>

definition dataset :: "'g world \<Rightarrow> string \<Rightarrow> 'g table option" where
  "dataset w p = map_of (datasets w) p"

definition store :: "string \<Rightarrow> 'g table \<Rightarrow> 'g world \<Rightarrow> 'g world" where
  "store p t w = w\<lparr>datasets := (p, t) # datasets w\<rparr>"

definition open_dataset :: "string \<Rightarrow> ('g table, 'g world) prog" where
  "open_dataset p = reading (\<lambda>w. case dataset w p of None \<Rightarrow> Inl ExecuteError | Some t \<Rightarrow> Inr t)"

definition Exists :: "string \<Rightarrow> 'g world \<Rightarrow> bool" where
  "Exists p w \<longleftrightarrow> p \<in> set (workspaces w) \<or> dataset w p \<noteq> None"

definition CreateFileGDB_management :: "string \<Rightarrow> string \<Rightarrow> (unit, 'g world) prog" where
  "CreateFileGDB_management out_folder_path out_name =
     modify (\<lambda>w. w\<lparr>workspaces := os_path_join out_folder_path out_name # workspaces w\<rparr>)"

definition CopyFeatures_management :: "string \<Rightarrow> string \<Rightarrow> (unit, 'g world) prog" where
  "CopyFeatures_management in_features out_feature_class =
     bindE (open_dataset in_features) (\<lambda>t. modify (store out_feature_class t))"

text \<open>Adding a field that the table already has changes nothing (the tool only warns).\<close>

definition add_field :: "field_def \<Rightarrow> 'g table \<Rightarrow> 'g table" where
  "add_field fld t =
     (if field_name fld \<in> set (field_names t) then t else t\<lparr>schema := schema t @ [fld]\<rparr>)"

definition AddField_management :: "string \<Rightarrow> field_def \<Rightarrow> (unit, 'g world) prog" where
  "AddField_management in_table fld =
     bindE (open_dataset in_table) (\<lambda>t. modify (store in_table (add_field fld t)))"

definition CreateTable_management :: "string \<Rightarrow> string \<Rightarrow> (unit, 'g world) prog" where
  "CreateTable_management out_path out_name =
     modify (store (os_path_join out_path out_name) \<lparr>schema = [], rows = []\<rparr>)"

text \<open>
  \<^verbatim>\<open>MakeFeatureLayer\<close> gives a view of a feature class; \<^verbatim>\<open>SelectLayerByLocation\<close> with
  INTERSECT, NEW\_SELECTION and no inversion keeps in the view the features that
  intersect at least one feature of \<open>select_features\<close>. A tool that is given the layer
  works on the features of the view.
\<close>

definition MakeFeatureLayer_management :: "string \<Rightarrow> ('g table, 'g world) prog" where
  "MakeFeatureLayer_management in_features = open_dataset in_features"

definition shapes_intersect :: "'g gis \<Rightarrow> 'g feature \<Rightarrow> 'g feature \<Rightarrow> bool" where
  "shapes_intersect gis f s =
     (case shape f of None \<Rightarrow> False
      | Some a \<Rightarrow> (case shape s of None \<Rightarrow> False | Some b \<Rightarrow> g_intersects gis a b))"

definition SelectLayerByLocation_management ::
  "'g gis \<Rightarrow> 'g table \<Rightarrow> string \<Rightarrow> ('g table, 'g world) prog" where
  "SelectLayerByLocation_management gis in_layer select_features =
     bindE (open_dataset select_features) (\<lambda>sel.
       ret (in_layer\<lparr>rows := filter (\<lambda>f. list_ex (shapes_intersect gis f) (rows sel))
                                      (rows in_layer)\<rparr>))"

text \<open>
  \<^verbatim>\<open>Buffer_analysis\<close> with \<^verbatim>\<open>line_side="FULL"\<close>, \<^verbatim>\<open>line_end_type="ROUND"\<close> and
  \<^verbatim>\<open>dissolve_option="ALL"\<close>: one feature without attributes, none for an empty input.
\<close>

definition buffer_rows :: "'g gis \<Rightarrow> string \<Rightarrow> 'g feature list \<Rightarrow> 'g feature list" where
  "buffer_rows gis buffer_distance fs =
     (if shapes_of fs = [] then []
      else [\<lparr>attrs = [], shape = Some (g_buffer gis buffer_distance (shapes_of fs))\<rparr>])"

definition Buffer_analysis ::
  "'g gis \<Rightarrow> 'g table \<Rightarrow> string \<Rightarrow> string \<Rightarrow> (unit, 'g world) prog" where
  "Buffer_analysis gis in_features out_feature_class buffer_distance =
     modify (store out_feature_class
       \<lparr>schema = [], rows = buffer_rows gis buffer_distance (rows in_features)\<rparr>)"

definition merge_fields :: "field_def list \<Rightarrow> field_def list \<Rightarrow> field_def list" where
  "merge_fields a b = a @ filter (\<lambda>f. field_name f \<notin> set (map field_name a)) b"

definition Merge_management :: "string \<Rightarrow> string \<Rightarrow> string \<Rightarrow> (unit, 'g world) prog" where
  "Merge_management input1 input2 output =
     bindE (open_dataset input1) (\<lambda>a.
     bindE (open_dataset input2) (\<lambda>b.
       modify (store output \<lparr>schema = merge_fields (schema a) (schema b),
                             rows = rows a @ rows b\<rparr>)))"

text \<open>
  \<^verbatim>\<open>Intersect_analysis\<close> of two inputs with \<^verbatim>\<open>join_attributes="ALL"\<close>: for every feature of
  the first input and every feature of the second, the common parts of the first one's
  geometry, each with the attributes of both.
\<close>

definition overlay :: "'g gis \<Rightarrow> 'g feature \<Rightarrow> 'g feature \<Rightarrow> 'g feature list" where
  "overlay gis fa fb =
     (case shape fa of None \<Rightarrow> []
      | Some ga \<Rightarrow> (case shape fb of None \<Rightarrow> []
         | Some gb \<Rightarrow> map (\<lambda>g. \<lparr>attrs = attrs fa @ attrs fb, shape = Some g\<rparr>)
                          (g_intersect gis ga gb)))"

definition intersect_rows :: "'g gis \<Rightarrow> 'g feature list \<Rightarrow> 'g feature list \<Rightarrow> 'g feature list" where
  "intersect_rows gis as bs = concat (map (\<lambda>fa. concat (map (overlay gis fa) bs)) as)"

definition Intersect_analysis ::
  "'g gis \<Rightarrow> string \<Rightarrow> string \<Rightarrow> string \<Rightarrow> (unit, 'g world) prog" where
  "Intersect_analysis gis in1 in2 out_feature_class =
     bindE (open_dataset in1) (\<lambda>a.
     bindE (open_dataset in2) (\<lambda>b.
       modify (store out_feature_class
         \<lparr>schema = merge_fields (schema a) (schema b),
          rows = intersect_rows gis (rows a) (rows b)\<rparr>)))"

text \<open>
  \<^verbatim>\<open>JoinField_management\<close>: every row of \<open>in_data\<close> gets the fields of the first row of the
  join table whose join field has the same value.
\<close>

definition join_row :: "string \<Rightarrow> string \<Rightarrow> 'g feature list \<Rightarrow> 'g feature \<Rightarrow> 'g feature" where
  "join_row in_field join_field js r =
     (case find (\<lambda>j. attr_of j join_field = attr_of r in_field) js of
        None \<Rightarrow> r
      | Some j \<Rightarrow> r\<lparr>attrs := attrs r @ attrs j\<rparr>)"

definition JoinField_management ::
  "string \<Rightarrow> string \<Rightarrow> string \<Rightarrow> string \<Rightarrow> (unit, 'g world) prog" where
  "JoinField_management in_data in_field join_table join_field =
     bindE (open_dataset in_data) (\<lambda>t.
     bindE (open_dataset join_table) (\<lambda>j.
       if in_field \<in> set (field_names t) \<and> join_field \<in> set (field_names j)
       then modify (store in_data \<lparr>schema = merge_fields (schema t) (schema j),
                                    rows = map (join_row in_field join_field (rows j)) (rows t)\<rparr>)
       else raise ExecuteError))"

subsection \<open>Cursors\<close>

text \<open>
  A search cursor yields, for every row, the values of the requested fields in order.
  The tokens \<^verbatim>\<open>SHAPE@LENGTH\<close> and \<^verbatim>\<open>SHAPE@AREA\<close> read the geometry; a field that the
  table does not have, or a token on a row without geometry, is a \<open>RuntimeError\<close>.
\<close>

definition is_token :: "string \<Rightarrow> bool" where
  "is_token n \<longleftrightarrow> n = ''SHAPE@LENGTH'' \<or> n = ''SHAPE@AREA''"

definition cursor_value :: "'g gis \<Rightarrow> 'g feature \<Rightarrow> string \<Rightarrow> val" where
  "cursor_value gis f n =
     (if n = ''SHAPE@LENGTH'' then (case shape f of None \<Rightarrow> Null | Some g \<Rightarrow> Num (Fin (g_length gis g)))
      else if n = ''SHAPE@AREA'' then (case shape f of None \<Rightarrow> Null | Some g \<Rightarrow> Num (Fin (g_area gis g)))
      else attr_of f n)"

definition readable :: "'g table \<Rightarrow> string \<Rightarrow> bool" where
  "readable t n \<longleftrightarrow>
     (if is_token n then list_all (\<lambda>f. shape f \<noteq> None) (rows t) else n \<in> set (field_names t))"

definition SearchCursor :: "'g gis \<Rightarrow> 'g world \<Rightarrow> string \<Rightarrow> string list \<Rightarrow> error + val list list" where
  "SearchCursor gis w in_table names =
     (case dataset w in_table of
        None \<Rightarrow> Inl RuntimeError
      | Some t \<Rightarrow>
          if list_all (readable t) names
          then Inr (map (\<lambda>f. map (cursor_value gis f) names) (rows t))
          else Inl RuntimeError)"

text \<open>An insert cursor appends one row per list of values.\<close>

definition InsertCursor :: "string \<Rightarrow> string list \<Rightarrow> val list list \<Rightarrow> (unit, 'g world) prog" where
  "InsertCursor in_table names results =
     bindE (open_dataset in_table) (\<lambda>t.
       if list_all (\<lambda>n. n \<in> set (field_names t)) names
       then modify (store in_table
              (t\<lparr>rows := rows t @ map (\<lambda>row. \<lparr>attrs = zip names row, shape = None\<rparr>) results\<rparr>))
       else raise RuntimeError)"

section \<open>The dataframe operations that the tool calls\<close>

text \<open>
  A dataframe read from a cursor is the list of its rows. Group keys that are null are
  dropped by \<^verbatim>\<open>pivot_table\<close> and \<^verbatim>\<open>groupby\<close>; both return their groups in sorted key order,
  and so does an outer merge. Numbers sort before texts, as Python 2 compares them.
\<close>

fun str_le :: "string \<Rightarrow> string \<Rightarrow> bool" where
  "str_le [] _ = True"
| "str_le (a # as) [] = False"
| "str_le (a # as) (b # bs) = ((of_char a :: nat) < of_char b \<or> (a = b \<and> str_le as bs))"

fun pf_leq :: "pyfloat \<Rightarrow> pyfloat \<Rightarrow> bool" where
  "pf_leq NaN _ = False"
| "pf_leq _ NaN = False"
| "pf_leq NegInf _ = True"
| "pf_leq _ PosInf = True"
| "pf_leq (Fin a) (Fin b) = (a \<le> b)"
| "pf_leq _ _ = False"

fun val_le :: "val \<Rightarrow> val \<Rightarrow> bool" where
  "val_le Null _ = True"
| "val_le (Num a) Null = False"
| "val_le (Num a) (Num b) = pf_leq a b"
| "val_le (Num a) (Str s) = True"
| "val_le (Str s) (Str u) = str_le s u"
| "val_le (Str s) _ = False"

fun insort_by :: "('a \<Rightarrow> 'a \<Rightarrow> bool) \<Rightarrow> 'a \<Rightarrow> 'a list \<Rightarrow> 'a list" where
  "insort_by le x [] = [x]"
| "insort_by le x (y # ys) = (if le x y then x # y # ys else y # insort_by le x ys)"

definition sort_by :: "('a \<Rightarrow> 'a \<Rightarrow> bool) \<Rightarrow> 'a list \<Rightarrow> 'a list" where
  "sort_by le xs = foldr (insort_by le) xs []"

definition sorted_keys :: "val list \<Rightarrow> val list" where
  "sorted_keys ks = sort_by val_le (remdups ks)"

fun real_of_val :: "val \<Rightarrow> real" where
  "real_of_val (Num (Fin r)) = r"
| "real_of_val _ = 0"

text \<open>A cell with no row to aggregate is NaN (\<open>None\<close> here); \<^verbatim>\<open>fillna(0)\<close> makes it 0.\<close>

definition agg_sum :: "real list \<Rightarrow> real option" where
  "agg_sum xs = (if xs = [] then None else Some (sum_list xs))"

definition fillna0 :: "real option \<Rightarrow> real" where
  "fillna0 x = (case x of None \<Rightarrow> 0 | Some v \<Rightarrow> v)"

text \<open>The rows that take part in the grouping: those whose key and road type are not null.\<close>

fun road_row :: "val list \<Rightarrow> (val \<times> val \<times> real) list" where
  "road_row [k, t, l] = (if k \<noteq> Null \<and> t \<noteq> Null then [(k, t, real_of_val l)] else [])"
| "road_row _ = []"

definition road_rows :: "val list list \<Rightarrow> (val \<times> val \<times> real) list" where
  "road_rows df = concat (map road_row df)"

record pivot =
  pv_columns :: "val list"
  pv_rows :: "(val \<times> real list) list"

text \<open>
  \<^verbatim>\<open>roads_df.pivot_table(index=key_field, columns="ROAD_TYPE", values="SHAPE@LENGTH",
  aggfunc="sum").fillna(0)\<close> followed by \<^verbatim>\<open>reset_index()\<close>: one column per road type that
  occurs, one row per key that occurs.
\<close>

definition pivot_table :: "val list list \<Rightarrow> pivot" where
  "pivot_table df =
     (let rs = road_rows df;
          cols = sorted_keys (map (\<lambda>(k, t, l). t) rs);
          idx = sorted_keys (map (\<lambda>(k, t, l). k) rs)
      in \<lparr>pv_columns = cols,
          pv_rows = map (\<lambda>k. (k, map (\<lambda>t. fillna0 (agg_sum
                       [l. (k', t', l) \<leftarrow> rs, k' = k \<and> t' = t])) cols)) idx\<rparr>)"

fun area_row :: "val list \<Rightarrow> (val \<times> real) list" where
  "area_row [k, a] = (if k \<noteq> Null then [(k, real_of_val a)] else [])"
| "area_row _ = []"

definition area_rows :: "val list list \<Rightarrow> (val \<times> real) list" where
  "area_rows df = concat (map area_row df)"

text \<open>\<^verbatim>\<open>watersheds_df.groupby([key_field]).sum()\<close> followed by \<^verbatim>\<open>reset_index()\<close>.\<close>

definition groupby_sum :: "val list list \<Rightarrow> (val \<times> real) list" where
  "groupby_sum df =
     (let rs = area_rows df
      in map (\<lambda>k. (k, sum_list [a. (k', a) \<leftarrow> rs, k' = k])) (sorted_keys (map fst rs)))"

text \<open>
  \<^verbatim>\<open>pd.merge(watershed_areas_df, road_watershed_df, on=key_field, how='outer').fillna(0)\<close>:
  a row for every key of either frame; what a frame lacks for a key is 0.
\<close>

definition merge_outer :: "(val \<times> real) list \<Rightarrow> pivot \<Rightarrow> (val \<times> real \<times> real list) list" where
  "merge_outer areas pv =
     map (\<lambda>k. (k, fillna0 (map_of areas k),
               (case map_of (pv_rows pv) k of
                  None \<Rightarrow> map (\<lambda>t. 0) (pv_columns pv)
                | Some cs \<Rightarrow> cs)))
         (sorted_keys (map fst areas @ map fst (pv_rows pv)))"

definition column :: "val list \<Rightarrow> val \<Rightarrow> real list \<Rightarrow> real" where
  "column cols c cells = fillna0 (map_of (zip cols cells) c)"

text \<open>
  Sorting a frame by one float column in descending order puts NaN last. The order among
  rows with equal values is not fixed by the library; the model keeps them in their
  given order.
\<close>

definition desc_before :: "pyfloat \<Rightarrow> pyfloat \<Rightarrow> bool" where
  "desc_before a b \<longleftrightarrow> b = NaN \<or> pf_leq b a"

section \<open>CalculateRoadDensityNearStreamsTool\<close>

text \<open>
  The tool object holds the parameters it was called with and the \<^verbatim>\<open>road_density\<close> section
  of its configuration file. A parameter value is kept as its text (\<^verbatim>\<open>str(value)\<close>).
\<close>

record param =
  param_name :: string
  param_value :: string

record tool =
  parameters :: "param list"
  config :: "(string \<times> string) list"

text \<open>Python's own number formatting is a parameter: \<^verbatim>\<open>'{:.6f}'\<close> and \<^verbatim>\<open>'{:.27}'\<close> on a float.\<close>

record fmt =
  fmt_f6 :: "pyfloat \<Rightarrow> string"
  fmt_g27 :: "pyfloat \<Rightarrow> string"

definition get_param_by_name :: "tool \<Rightarrow> string \<Rightarrow> param option" where
  "get_param_by_name self n =
     (case filter (\<lambda>i. param_name i = n) (parameters self) of [] \<Rightarrow> None | p # ps \<Rightarrow> Some p)"

text \<open>\<^verbatim>\<open>self.get_param_by_name(n).value\<close>: an \<open>AttributeError\<close> when there is no such parameter.\<close>

definition value_of :: "tool \<Rightarrow> string \<Rightarrow> error + string" where
  "value_of self n =
     (case get_param_by_name self n of None \<Rightarrow> Inl AttributeError | Some p \<Rightarrow> Inr (param_value p))"

definition bindS :: "error + 'a \<Rightarrow> ('a \<Rightarrow> error + 'b) \<Rightarrow> error + 'b" where
  "bindS r f = (case r of Inl e \<Rightarrow> Inl e | Inr a \<Rightarrow> f a)"

fun update_all :: "string \<Rightarrow> val \<Rightarrow> 'g feature list \<Rightarrow> 'g feature list" where
  "update_all n v [] = []"
| "update_all n v (row # rest) = set_field n v row # update_all n v rest"

definition add_constant_field :: "string \<Rightarrow> string \<Rightarrow> string \<Rightarrow> (unit, 'g world) prog" where
  "add_constant_field table_name fname fvalue =
     bindE (AddField_management table_name
              \<lparr>field_name = fname, field_type = ''TEXT'', field_alias = None,
               field_length = Some (length fvalue + 2), field_precision = None,
               field_scale = None\<rparr>) (\<lambda>_.
     bindE (open_dataset table_name) (\<lambda>t.
       if fname \<in> set (field_names t)
       then modify (store table_name (t\<lparr>rows := update_all fname (Str fvalue) (rows t)\<rparr>))
       else raise RuntimeError))"

definition ListFields :: "'g world \<Rightarrow> string \<Rightarrow> error + field_def list" where
  "ListFields w d = (case dataset w d of None \<Rightarrow> Inl RuntimeError | Some t \<Rightarrow> Inr (schema t))"

definition table_to_dataframe ::
  "'g gis \<Rightarrow> 'g world \<Rightarrow> string \<Rightarrow> string list \<Rightarrow> error + val list list" where
  "table_to_dataframe gis w table names =
     (if names = []
      then bindS (ListFields w table) (\<lambda>fs. SearchCursor gis w table (map field_name fs))
      else SearchCursor gis w table names)"

definition get_field_definition :: "'g world \<Rightarrow> string \<Rightarrow> string \<Rightarrow> error + field_def option" where
  "get_field_definition w table fname =
     bindS (ListFields w table) (\<lambda>fs.
       Inr (case filter (\<lambda>i. field_name i = fname) fs of [] \<Rightarrow> None | f # r \<Rightarrow> Some f))"

definition double_field :: "string \<Rightarrow> string \<Rightarrow> field_def" where
  "double_field n a =
     \<lparr>field_name = n, field_type = ''DOUBLE'', field_alias = Some a, field_length = None,
      field_precision = None, field_scale = None\<rparr>"

text \<open>
  The loop \<^verbatim>\<open>for fld in fields: arcpy.AddField_management(in_table=..., **fld)\<close>; unpacking
  \<open>None\<close> (no key field definition was found) is a \<open>TypeError\<close>.
\<close>

fun add_fields :: "string \<Rightarrow> field_def option list \<Rightarrow> (unit, 'g world) prog" where
  "add_fields tbl [] = ret ()"
| "add_fields tbl (None # flds) = raise TypeError"
| "add_fields tbl (Some fld # flds) = bindE (AddField_management tbl fld) (\<lambda>_. add_fields tbl flds)"

definition create_result_table ::
  "string \<Rightarrow> string \<Rightarrow> field_def option \<Rightarrow> (string, 'g world) prog" where
  "create_result_table workspace table_name key_field_def =
     bindE (CreateTable_management workspace table_name) (\<lambda>_.
     bindE (add_fields (os_path_join workspace table_name)
              [key_field_def,
               Some (double_field ''watershed_area'' ''Watershed Area Sqr KM''),
               Some (double_field ''proposed_road_length'' ''Proposed Road Length Near Streams KM''),
               Some (double_field ''existing_road_length'' ''Existing Road Length Near Streams KM''),
               Some (double_field ''total_road_length''
                       ''Total (proposed and existing) Road Length Near Streams KM''),
               Some (double_field ''original_road_density''
                       ''Existing Road Density Near Streams KM/KM2''),
               Some (double_field ''future_road_density''
                       ''Future Road Density Near Streams KM/KM2'')]) (\<lambda>_.
       ret (os_path_join workspace table_name)))"

subsection \<open>run\_spatial\_analysis\<close>

definition run_spatial_analysis :: "tool \<Rightarrow> 'g gis \<Rightarrow> (string, 'g world) prog" where
  "run_spatial_analysis self gis =
     bindE (liftE (dict_get (config self) ''workspace'')) (\<lambda>workspace.
     bindE (liftE (value_of self ''in_streams'')) (\<lambda>in_streams.
     bindE (MakeFeatureLayer_management in_streams) (\<lambda>streams_layer0.
     bindE (liftE (value_of self ''in_watershed'')) (\<lambda>in_watershed.
     bindE (SelectLayerByLocation_management gis streams_layer0 in_watershed) (\<lambda>streams_layer.
     bindE (liftE (value_of self ''in_distance'')) (\<lambda>in_distance.
     bindE (Buffer_analysis gis streams_layer (os_path_join workspace ''stream_buffer'') in_distance) (\<lambda>_.
     bindE (liftE (value_of self ''in_roads'')) (\<lambda>in_roads.
     bindE (CopyFeatures_management in_roads (os_path_join workspace ''original_roads'')) (\<lambda>_.
     bindE (add_constant_field (os_path_join workspace ''original_roads'')
              ''ROAD_TYPE'' ''Pre-Development'') (\<lambda>_.
     bindE (liftE (value_of self ''in_proposed_roads'')) (\<lambda>in_proposed_roads.
     bindE (CopyFeatures_management in_proposed_roads (os_path_join workspace ''proposed_roads'')) (\<lambda>_.
     bindE (add_constant_field (os_path_join workspace ''proposed_roads'')
              ''ROAD_TYPE'' ''Proposed'') (\<lambda>_.
     bindE (Merge_management (os_path_join workspace ''original_roads'')
              (os_path_join workspace ''proposed_roads'')
              (os_path_join workspace ''roads_combined'')) (\<lambda>_.
     bindE (Intersect_analysis gis (os_path_join workspace ''roads_combined'')
              (os_path_join workspace ''stream_buffer'')
              (os_path_join workspace ''intersected_streams_roads'')) (\<lambda>_.
     bindE (liftE (value_of self ''in_watershed'')) (\<lambda>in_watershed2.
     bindE (Intersect_analysis gis (os_path_join workspace ''intersected_streams_roads'')
              in_watershed2
              (os_path_join workspace ''intersected_roads_watershed'')) (\<lambda>_.
       ret (os_path_join workspace ''intersected_roads_watershed''))))))))))))))))))"

subsection \<open>run\_summary\_analysis\<close>

record summary_row =
  key :: val
  SHAPE_AREA :: real
  Pre_Development :: real
  Proposed :: real
  total_road_km :: real
  proposed_road_length :: real
  existing_road_length :: real
  total_road_length :: real
  watershed_area :: real
  future_road_density :: pyfloat
  original_road_density :: pyfloat

text \<open>The column assignments of lines 268 to 274, for one row.\<close>

definition calculate :: "val \<Rightarrow> real \<Rightarrow> real \<Rightarrow> real \<Rightarrow> summary_row" where
  "calculate k area pre prop =
     (let total_km = (pre + prop) / 1000;
          proposed_len = prop / 1000;
          existing_len = pre / 1000;
          total_len = existing_len + proposed_len;
          ws_area = area / 1000000
      in \<lparr>key = k, SHAPE_AREA = area, Pre_Development = pre, Proposed = prop,
          total_road_km = total_km, proposed_road_length = proposed_len,
          existing_road_length = existing_len, total_road_length = total_len,
          watershed_area = ws_area,
          future_road_density = py_fdiv total_len ws_area,
          original_road_density = py_fdiv existing_len ws_area\<rparr>)"

text \<open>
  Reading a column that the merged frame does not have (\<^verbatim>\<open>newdf['Pre-Development']\<close>,
  \<^verbatim>\<open>newdf['Proposed']\<close>) raises \<open>KeyError\<close>: the pivot has a column only for a road type
  that occurs in the spatial result.
\<close>

definition run_summary_analysis ::
  "tool \<Rightarrow> 'g gis \<Rightarrow> 'g world \<Rightarrow> string \<Rightarrow> error + summary_row list" where
  "run_summary_analysis self gis w spatial_result =
     bindS (value_of self ''in_watershed_id'') (\<lambda>key_field.
     bindS (table_to_dataframe gis w spatial_result [key_field, ''ROAD_TYPE'', ''SHAPE@LENGTH''])
       (\<lambda>roads_df.
     let road_watershed_df = pivot_table roads_df in
     bindS (value_of self ''in_watershed'') (\<lambda>in_watershed.
     bindS (table_to_dataframe gis w in_watershed [key_field, ''SHAPE@AREA'']) (\<lambda>watersheds_df.
     let watershed_areas_df = groupby_sum watersheds_df;
         newdf = merge_outer watershed_areas_df road_watershed_df;
         cols = pv_columns road_watershed_df
     in if Str ''Pre-Development'' \<in> set cols \<and> Str ''Proposed'' \<in> set cols
        then Inr (map (\<lambda>(k, area, cells).
                    calculate k area (column cols (Str ''Pre-Development'') cells)
                                     (column cols (Str ''Proposed'') cells)) newdf)
        else Inl KeyError))))"

subsection \<open>export\_results\_table\<close>

text \<open>The columns of the frame that \<^verbatim>\<open>run_summary_analysis\<close> returns, and a row's value in each.\<close>

definition frame_columns :: "string \<Rightarrow> string list" where
  "frame_columns key_field =
     [key_field, ''SHAPE@AREA'', ''Pre-Development'', ''Proposed'', ''total-road-km'',
      ''proposed_road_length'', ''existing_road_length'', ''total_road_length'',
      ''watershed_area'', ''future_road_density'', ''original_road_density'']"

definition column_value :: "string \<Rightarrow> summary_row \<Rightarrow> string \<Rightarrow> val" where
  "column_value key_field r n =
     (if n = key_field then key r
      else if n = ''SHAPE@AREA'' then Num (Fin (SHAPE_AREA r))
      else if n = ''Pre-Development'' then Num (Fin (Pre_Development r))
      else if n = ''Proposed'' then Num (Fin (Proposed r))
      else if n = ''total-road-km'' then Num (Fin (total_road_km r))
      else if n = ''proposed_road_length'' then Num (Fin (proposed_road_length r))
      else if n = ''existing_road_length'' then Num (Fin (existing_road_length r))
      else if n = ''total_road_length'' then Num (Fin (total_road_length r))
      else if n = ''watershed_area'' then Num (Fin (watershed_area r))
      else if n = ''future_road_density'' then Num (future_road_density r)
      else if n = ''original_road_density'' then Num (original_road_density r)
      else Null)"

text \<open>
  \<^verbatim>\<open>result_df[fields].values\<close> (a \<open>KeyError\<close> for a column that the frame lacks), then one
  \<^verbatim>\<open>insertRow\<close> per row.
\<close>

definition dataframe_to_table ::
  "string \<Rightarrow> summary_row list \<Rightarrow> string \<Rightarrow> string list \<Rightarrow> (unit, 'g world) prog" where
  "dataframe_to_table key_field result_df tbl names =
     (if list_all (\<lambda>n. n \<in> set (frame_columns key_field)) names
      then InsertCursor tbl names (map (\<lambda>r. map (column_value key_field r) names) result_df)
      else raise KeyError)"

definition export_results_table ::
  "tool \<Rightarrow> summary_row list \<Rightarrow> string \<Rightarrow> (string, 'g world) prog" where
  "export_results_table self dataframe output_gdb =
     bindE (liftE (value_of self ''in_watershed_id'')) (\<lambda>key_field.
     bindE (liftE (value_of self ''in_watershed'')) (\<lambda>in_watershed.
     bindE (reading (\<lambda>w. get_field_definition w in_watershed key_field)) (\<lambda>key_field_definition.
     bindE (create_result_table output_gdb ''Results'' key_field_definition) (\<lambda>_.
     bindE (dataframe_to_table key_field dataframe (os_path_join output_gdb ''Results'')
              [key_field, ''watershed_area'', ''existing_road_length'', ''proposed_road_length'',
               ''total_road_length'', ''original_road_density'', ''future_road_density'']) (\<lambda>_.
       ret (os_path_join output_gdb ''Results''))))))"

subsection \<open>simple\_report\<close>

definition change_in_density :: "summary_row \<Rightarrow> pyfloat" where
  "change_in_density r = py_fabs (py_fsub (original_road_density r) (future_road_density r))"

text \<open>
  The frame gets the column \<^verbatim>\<open>change_in_density\<close>, is sorted on it in descending order, and
  the first 20 rows of the four report columns are kept.
\<close>

definition report_values :: "summary_row list \<Rightarrow> (val \<times> pyfloat \<times> pyfloat \<times> pyfloat) list" where
  "report_values result_df =
     take 20 (map (\<lambda>r. (key r, original_road_density r, future_road_density r, change_in_density r))
                  (sort_by (\<lambda>a b. desc_before (change_in_density a) (change_in_density b))
                           result_df))"

text \<open>\<^verbatim>\<open>'{:.27}'.format(x)\<close>: a text is cut to 27 characters.\<close>

fun format_key :: "fmt \<Rightarrow> val \<Rightarrow> string" where
  "format_key fm (Str s) = take 27 s"
| "format_key fm (Num x) = fmt_g27 fm x"
| "format_key fm Null = ''None''"

definition format_row :: "fmt \<Rightarrow> val \<times> pyfloat \<times> pyfloat \<times> pyfloat \<Rightarrow> string" where
  "format_row fm row =
     (case row of (k, orig, fut, change) \<Rightarrow>
        format_key fm k @ '' '' @ fmt_f6 fm orig @ '' '' @ fmt_f6 fm fut @ '' '' @ fmt_f6 fm change)"

definition report_header :: "string \<Rightarrow> string" where
  "report_header key_field =
     ''<BOL>'' @ ljust 27 key_field @ '' '' @ ljust 8 ''Exiting'' @ '' '' @ ljust 8 ''Future''
       @ '' '' @ ljust 8 ''Change'' @ ''</BOL>''"

definition report_items :: "fmt \<Rightarrow> string \<Rightarrow> summary_row list \<Rightarrow> string list" where
  "report_items fm key_field result_df = report_header key_field # map (format_row fm) (report_values result_df)"

definition simple_report :: "tool \<Rightarrow> fmt \<Rightarrow> summary_row list \<Rightarrow> error + string" where
  "simple_report self fm result_df =
     bindS (value_of self ''in_watershed_id'') (\<lambda>key_field.
       if length (report_values result_df) > 0
       then Inr (str_join [CHR 0x0A] (report_items fm key_field result_df))
       else Inr ''Unable to find assessment data'')"

subsection \<open>generate\_pdf\_mxd\<close>

definition replaceDataSource ::
  "string \<Rightarrow> string \<Rightarrow> string \<Rightarrow> string \<Rightarrow> (unit, 'g world) prog" where
  "replaceDataSource frame_name layer_name ws ds =
     bindE (reading (\<lambda>w. dict_get (layers (mxd w)) frame_name)) (\<lambda>lyrs.
     bindE (liftE (dict_get lyrs layer_name)) (\<lambda>lyr.
       modify (\<lambda>w. w\<lparr>mxd := (mxd w)\<lparr>layers :=
         dict_set frame_name
           (dict_set layer_name (lyr\<lparr>workspace_path := ws, dataset_name := ds\<rparr>) lyrs)
           (layers (mxd w))\<rparr>\<rparr>)))"

definition getExtent :: "string \<Rightarrow> string \<Rightarrow> ('g list, 'g world) prog" where
  "getExtent frame_name layer_name =
     bindE (reading (\<lambda>w. dict_get (layers (mxd w)) frame_name)) (\<lambda>lyrs.
     bindE (liftE (dict_get lyrs layer_name)) (\<lambda>lyr.
       reading (\<lambda>w. Inr (case dataset w (os_path_join (workspace_path lyr) (dataset_name lyr)) of
                           None \<Rightarrow> [] | Some t \<Rightarrow> shapes_of (rows t)))))"

definition set_extent :: "'g gis \<Rightarrow> string \<Rightarrow> 'g list \<Rightarrow> (unit, 'g world) prog" where
  "set_extent gis frame_name ext =
     bindE (reading (\<lambda>w. dict_get (data_frames (mxd w)) frame_name)) (\<lambda>df.
       modify (\<lambda>w. w\<lparr>mxd := (mxd w)\<lparr>data_frames :=
         dict_set frame_name (df\<lparr>extent := ext, scale := g_scale gis ext\<rparr>) (data_frames (mxd w))\<rparr>\<rparr>))"

definition set_scale :: "string \<Rightarrow> real \<Rightarrow> (unit, 'g world) prog" where
  "set_scale frame_name s =
     bindE (reading (\<lambda>w. dict_get (data_frames (mxd w)) frame_name)) (\<lambda>df.
       modify (\<lambda>w. w\<lparr>mxd := (mxd w)\<lparr>data_frames :=
         dict_set frame_name (df\<lparr>scale := s\<rparr>) (data_frames (mxd w))\<rparr>\<rparr>))"

definition set_text :: "string \<Rightarrow> string \<Rightarrow> (unit, 'g world) prog" where
  "set_text element_name txt =
     bindE (reading (\<lambda>w. dict_get (elements (mxd w)) element_name)) (\<lambda>old.
       modify (\<lambda>w. w\<lparr>mxd := (mxd w)\<lparr>elements := dict_set element_name txt (elements (mxd w))\<rparr>\<rparr>))"

definition ExportToPDF :: "string \<Rightarrow> (unit, 'g world) prog" where
  "ExportToPDF out_path = modify (\<lambda>w. w\<lparr>files := (out_path, PDF (mxd w)) # files w\<rparr>)"

definition saveACopy :: "string \<Rightarrow> (unit, 'g world) prog" where
  "saveACopy out_path = modify (\<lambda>w. w\<lparr>files := (out_path, MXD (mxd w)) # files w\<rparr>)"

definition generate_pdf_mxd ::
  "tool \<Rightarrow> 'g gis \<Rightarrow> fmt \<Rightarrow> string \<Rightarrow> summary_row list \<Rightarrow> (unit, 'g world) prog" where
  "generate_pdf_mxd self gis fm result_layer result_df =
     (case os_path_split result_layer of (workspace, ds) \<Rightarrow>
     bindE (replaceDataSource ''Existing'' ''Road Density'' workspace ds) (\<lambda>_.
     bindE (replaceDataSource ''Proposed'' ''Road Density'' workspace ds) (\<lambda>_.
     bindE (liftE (value_of self ''in_proposed_roads'')) (\<lambda>in_proposed_roads.
     (case os_path_split in_proposed_roads of (workspace2, ds2) \<Rightarrow>
     bindE (replaceDataSource ''Proposed'' ''Proposed Roads'' workspace2 ds2) (\<lambda>_.
     bindE (getExtent ''Existing'' ''Road Density'') (\<lambda>ext.
     bindE (set_extent gis ''Existing'' ext) (\<lambda>_.
     bindE (set_extent gis ''Proposed'' ext) (\<lambda>_.
     bindE (reading (\<lambda>w. dict_get (data_frames (mxd w)) ''Existing'')) (\<lambda>existing.
     bindE (liftE (get_map_scale (scale existing))) (\<lambda>sc.
     bindE (set_scale ''Existing'' (real_of_int sc)) (\<lambda>_.
     bindE (set_scale ''Proposed'' (real_of_int sc)) (\<lambda>_.
     bindE (liftE (value_of self ''in_distance'')) (\<lambda>distance.
     bindE (set_text ''subTitleText''
              (''Density is based on roads within '' @ distance @ '' of a stream centerline'')) (\<lambda>_.
     bindE (liftE (simple_report self fm result_df)) (\<lambda>output_table.
     bindE (set_text ''tableTextArea'' output_table) (\<lambda>_.
     bindE (liftE (value_of self ''out_folder'')) (\<lambda>out_folder.
     bindE (liftE (dict_get (config self) ''image_quality'')) (\<lambda>image_quality.
     bindE (ExportToPDF (os_path_join out_folder ''result.pdf'')) (\<lambda>_.
     bindE (liftE (value_of self ''out_folder'')) (\<lambda>out_folder2.
       saveACopy (os_path_join out_folder2 ''result.mxd''))))))))))))))))))))))"

subsection \<open>run\<close>

text \<open>\<open>invoke st m\<close> is the call of the stage \<open>st\<close> with body \<open>m\<close>: it records the call, then runs \<open>m\<close>.\<close>

definition invoke :: "stage \<Rightarrow> ('a, 'g world) prog \<Rightarrow> ('a, 'g world) prog" where
  "invoke st m = (\<lambda>w. m (w\<lparr>calls := calls w @ [st]\<rparr>))"

definition run :: "tool \<Rightarrow> 'g gis \<Rightarrow> fmt \<Rightarrow> (unit, 'g world) prog" where
  "run self gis fm =
     bindE (liftE (value_of self ''in_watershed_id'')) (\<lambda>key_field.
     bindE (liftE (value_of self ''out_folder'')) (\<lambda>out_folder.
     let output_gdb = os_path_join out_folder ''results.gdb'' in
     bindE (\<lambda>w. if \<not> Exists output_gdb w
                 then bindE (liftE (value_of self ''out_folder''))
                        (\<lambda>folder. CreateFileGDB_management folder ''results.gdb'') w
                 else ret () w) (\<lambda>_.
     bindE (invoke RunSpatialAnalysis (run_spatial_analysis self gis)) (\<lambda>spatial_result.
     bindE (invoke RunSummaryAnalysis
              (reading (\<lambda>w. run_summary_analysis self gis w spatial_result))) (\<lambda>result.
     bindE (invoke ExportResultsTable (export_results_table self result output_gdb)) (\<lambda>result_table.
     bindE (liftE (value_of self ''in_watershed'')) (\<lambda>in_watershed.
     bindE (CopyFeatures_management in_watershed (os_path_join output_gdb ''result_polygons'')) (\<lambda>_.
     bindE (JoinField_management (os_path_join output_gdb ''result_polygons'') key_field
              result_table key_field) (\<lambda>_.
       invoke GeneratePdfMxd
         (generate_pdf_mxd self gis fm (os_path_join output_gdb ''result_polygons'') result))))))))))"

section \<open>Quantities that the properties speak about\<close>

text \<open>
  The length of a feature and the area of a polygon as a cursor reads them, the road
  length of one road type recorded for one watershed key in an overlay result, and the
  area recorded for one watershed key in the watershed layer.
\<close>

definition feature_length :: "'g gis \<Rightarrow> 'g feature \<Rightarrow> real" where
  "feature_length gis f = (case shape f of None \<Rightarrow> 0 | Some g \<Rightarrow> g_length gis g)"

definition feature_area :: "'g gis \<Rightarrow> 'g feature \<Rightarrow> real" where
  "feature_area gis f = (case shape f of None \<Rightarrow> 0 | Some g \<Rightarrow> g_area gis g)"

definition road_length :: "'g gis \<Rightarrow> 'g table \<Rightarrow> string \<Rightarrow> val \<Rightarrow> string \<Rightarrow> real" where
  "road_length gis t key_field k road_type =
     sum_list [feature_length gis f. f \<leftarrow> rows t,
               cursor_value gis f key_field = k \<and> cursor_value gis f ''ROAD_TYPE'' = Str road_type]"

definition polygon_area :: "'g gis \<Rightarrow> 'g table \<Rightarrow> string \<Rightarrow> val \<Rightarrow> real" where
  "polygon_area gis t key_field k =
     sum_list [feature_area gis f. f \<leftarrow> rows t, cursor_value gis f key_field = k]"

text \<open>
  The overlay in the words of its description: the streams that intersect a watershed,
  the road features with their tag, and the length of the parts of a set of roads that
  lie in the buffer and in a watershed with a given key.
  The datasets that \<open>run_spatial_analysis\<close> writes are \<open>intermediate\<close>; the state it leaves
  behind, when its inputs are none of them, is \<open>spatial_world\<close>.
\<close>

definition intermediate :: "string \<Rightarrow> string list" where
  "intermediate workspace = map (os_path_join workspace)
     [''stream_buffer'', ''original_roads'', ''proposed_roads'', ''roads_combined'',
      ''intersected_streams_roads'', ''intersected_roads_watershed'']"

definition tagged :: "string \<Rightarrow> 'g feature list \<Rightarrow> 'g feature list" where
  "tagged v fs = map (set_field ''ROAD_TYPE'' (Str v)) fs"

definition selected_streams :: "'g gis \<Rightarrow> 'g table \<Rightarrow> 'g table \<Rightarrow> 'g feature list" where
  "selected_streams gis streams sheds =
     filter (\<lambda>s. list_ex (shapes_intersect gis s) (rows sheds)) (rows streams)"

definition overlay_length ::
  "'g gis \<Rightarrow> 'g feature list \<Rightarrow> 'g feature list \<Rightarrow> 'g feature list \<Rightarrow> string \<Rightarrow> val \<Rightarrow> real" where
  "overlay_length gis roads buffer sheds key_field k =
     sum_list [feature_length gis f.
               f \<leftarrow> intersect_rows gis (intersect_rows gis roads buffer) sheds,
               cursor_value gis f key_field = k]"

definition road_type_field :: "string \<Rightarrow> field_def" where
  "road_type_field v = \<lparr>field_name = ''ROAD_TYPE'', field_type = ''TEXT'', field_alias = None,
     field_length = Some (length v + 2), field_precision = None, field_scale = None\<rparr>"

definition spatial_world ::
  "'g gis \<Rightarrow> string \<Rightarrow> string \<Rightarrow> 'g table \<Rightarrow> 'g table \<Rightarrow> 'g table \<Rightarrow> 'g table \<Rightarrow> 'g world \<Rightarrow> 'g world" where
  "spatial_world gis ws distance streams sheds roads proposed w =
     (let buffer = \<lparr>schema = [], rows = buffer_rows gis distance (selected_streams gis streams sheds)\<rparr>;
          orig0 = add_field (road_type_field ''Pre-Development'') roads;
          orig = \<lparr>schema = schema orig0, rows = tagged ''Pre-Development'' (rows roads)\<rparr>;
          prop0 = add_field (road_type_field ''Proposed'') proposed;
          prop = \<lparr>schema = schema prop0, rows = tagged ''Proposed'' (rows proposed)\<rparr>;
          combined = \<lparr>schema = merge_fields (schema orig) (schema prop), rows = rows orig @ rows prop\<rparr>;
          isr = \<lparr>schema = merge_fields (schema combined) (schema buffer),
                 rows = intersect_rows gis (rows combined) (rows buffer)\<rparr>;
          irw = \<lparr>schema = merge_fields (schema isr) (schema sheds),
                 rows = intersect_rows gis (rows isr) (rows sheds)\<rparr>
      in store (os_path_join ws ''intersected_roads_watershed'') irw
        (store (os_path_join ws ''intersected_streams_roads'') isr
        (store (os_path_join ws ''roads_combined'') combined
        (store (os_path_join ws ''proposed_roads'') prop
        (store (os_path_join ws ''proposed_roads'') prop0
        (store (os_path_join ws ''proposed_roads'') proposed
        (store (os_path_join ws ''original_roads'') orig
        (store (os_path_join ws ''original_roads'') orig0
        (store (os_path_join ws ''original_roads'') roads
        (store (os_path_join ws ''stream_buffer'') buffer w))))))))))"

text \<open>
  What the geometry engine is relied on for, in terms of the points \<open>pts g\<close> that a
  geometry covers: two geometries intersect when they share a point, every part that the
  intersection of two geometries returns lies in both of them, and geometries that share
  no point have no common part. Two features meet when their geometries share a point;
  a feature lies within another one when its geometry covers no point outside the
  other's.
\<close>

definition point_set_engine :: "'g gis \<Rightarrow> ('g \<Rightarrow> 'p set) \<Rightarrow> bool" where
  "point_set_engine gis pts \<longleftrightarrow>
     (\<forall>a b. g_intersects gis a b \<longleftrightarrow> pts a \<inter> pts b \<noteq> {})
   \<and> (\<forall>a b. \<forall>p\<in>set (g_intersect gis a b). pts p \<subseteq> pts a \<inter> pts b)
   \<and> (\<forall>a b. pts a \<inter> pts b = {} \<longrightarrow> g_intersect gis a b = [])"

definition shape_meets :: "('g \<Rightarrow> 'p set) \<Rightarrow> 'g feature \<Rightarrow> 'g feature \<Rightarrow> bool" where
  "shape_meets pts f g =
     (case shape f of None \<Rightarrow> False
      | Some a \<Rightarrow> (case shape g of None \<Rightarrow> False | Some b \<Rightarrow> pts a \<inter> pts b \<noteq> {}))"

definition shape_within :: "('g \<Rightarrow> 'p set) \<Rightarrow> 'g feature \<Rightarrow> 'g feature \<Rightarrow> bool" where
  "shape_within pts f g =
     (case shape f of None \<Rightarrow> False
      | Some a \<Rightarrow> (case shape g of None \<Rightarrow> False | Some b \<Rightarrow> pts a \<subseteq> pts b))"

section \<open>A small worked example\<close>

text \<open>
  A one-dimensional world: a geometry is a list of unit cells, two geometries intersect
  when they share a cell, the buffer adds the neighbouring cells, a cell is 1000 m long
  and one square kilometre large. One watershed \<open>A\<close> (the cells 0 to 9); two streams, the
  second one just outside the watershed; two existing roads, the first one crossing the
  buffer of the first stream and leaving the watershed, the second one inside the
  watershed and outside that buffer, but within reach of the second stream; and one
  proposed road.
\<close>

definition example_gis :: "nat list gis" where
  "example_gis = \<lparr>g_intersects = (\<lambda>a b. list_ex (\<lambda>x. x \<in> set b) a),
     g_buffer = (\<lambda>d gs. concat (map (\<lambda>x. [x - 1, x, x + 1]) (concat gs))),
     g_intersect = (\<lambda>a b. if filter (\<lambda>x. x \<in> set b) a = [] then []
                           else [filter (\<lambda>x. x \<in> set b) a]),
     g_length = (\<lambda>a. 1000 * real (length a)),
     g_area = (\<lambda>a. 1000000 * real (length a)),
     g_scale = (\<lambda>e. 12345.6)\<rparr>"

definition text_field :: "string \<Rightarrow> field_def" where
  "text_field n = \<lparr>field_name = n, field_type = ''String'', field_alias = Some n,
     field_length = Some 10, field_precision = None, field_scale = None\<rparr>"

definition example_streams :: "nat list table" where
  "example_streams = \<lparr>schema = [], rows = [\<lparr>attrs = [], shape = Some [5]\<rparr>,
                                           \<lparr>attrs = [], shape = Some [10]\<rparr>]\<rparr>"

definition example_sheds :: "nat list table" where
  "example_sheds = \<lparr>schema = [text_field ''WS''],
     rows = [\<lparr>attrs = [(''WS'', Str ''A'')], shape = Some [0, 1, 2, 3, 4, 5, 6, 7, 8, 9]\<rparr>]\<rparr>"

definition example_roads :: "nat list table" where
  "example_roads = \<lparr>schema = [], rows = [\<lparr>attrs = [], shape = Some [3, 4, 5, 20]\<rparr>,
                                         \<lparr>attrs = [], shape = Some [8, 9]\<rparr>]\<rparr>"

definition example_new :: "nat list table" where
  "example_new = \<lparr>schema = [], rows = [\<lparr>attrs = [], shape = Some [6, 30]\<rparr>]\<rparr>"

definition example_world :: "nat list world" where
  "example_world = \<lparr>datasets =
      [(''streams'', example_streams), (''sheds'', example_sheds),
       (''roads'', example_roads), (''new'', example_new)],
     workspaces = [],
     mxd = \<lparr>data_frames = [(''Existing'', \<lparr>extent = [], scale = 1\<rparr>),
                           (''Proposed'', \<lparr>extent = [], scale = 1\<rparr>)],
            layers = [(''Existing'', [(''Road Density'', \<lparr>workspace_path = ''t'', dataset_name = ''x''\<rparr>)]),
                      (''Proposed'', [(''Road Density'', \<lparr>workspace_path = ''t'', dataset_name = ''x''\<rparr>),
                                      (''Proposed Roads'', \<lparr>workspace_path = ''t'', dataset_name = ''y''\<rparr>)])],
            elements = [(''subTitleText'', []), (''tableTextArea'', [])]\<rparr>,
     files = [], calls = []\<rparr>"

definition example_tool :: tool where
  "example_tool = \<lparr>parameters =
      [\<lparr>param_name = ''in_streams'', param_value = ''streams''\<rparr>,
       \<lparr>param_name = ''in_watershed'', param_value = ''sheds''\<rparr>,
       \<lparr>param_name = ''in_watershed_id'', param_value = ''WS''\<rparr>,
       \<lparr>param_name = ''in_roads'', param_value = ''roads''\<rparr>,
       \<lparr>param_name = ''in_proposed_roads'', param_value = ''new''\<rparr>,
       \<lparr>param_name = ''in_distance'', param_value = ''1 Meters''\<rparr>,
       \<lparr>param_name = ''out_folder'', param_value = ''out''\<rparr>],
     config = [(''workspace'', ''tmp''), (''image_quality'', ''BEST'')]\<rparr>"

definition example_fmt :: fmt where
  "example_fmt = \<lparr>fmt_f6 = (\<lambda>x. case x of Fin r \<Rightarrow> str_int \<lfloor>r * 1000000\<rfloor> | PosInf \<Rightarrow> ''inf''
                                   | NegInf \<Rightarrow> ''-inf'' | NaN \<Rightarrow> ''nan''),
                  fmt_g27 = (\<lambda>x. ''?'')\<rparr>"

definition example_overlay :: "nat list table" where
  "example_overlay = \<lparr>schema = [text_field ''ROAD_TYPE'', text_field ''WS''], rows =
     [\<lparr>attrs = [(''ROAD_TYPE'', Str ''Pre-Development''), (''WS'', Str ''A'')], shape = Some [4, 5]\<rparr>,
      \<lparr>attrs = [(''ROAD_TYPE'', Str ''Proposed''), (''WS'', Str ''A'')], shape = Some [6]\<rparr>]\<rparr>"

definition example_rows :: "summary_row list" where
  "example_rows = [calculate (Str ''A'') 10000000 2000 1000,
                   calculate (Str ''C'') 0 0 0,
                   calculate (Str ''B'') 4000000 0 2000]"

definition example_buffer :: "nat list feature list" where
  "example_buffer = [\<lparr>attrs = [], shape = Some [4, 5, 6]\<rparr>]"

definition example_far_road :: "nat list feature" where
  "example_far_road = \<lparr>attrs = [(''ROAD_TYPE'', Str ''Pre-Development'')], shape = Some [8, 9]\<rparr>"

section \<open>Properties of the scale rounding\<close>

lemma str_nat_length:
  "n < 10 ^ Suc k \<Longrightarrow> k = 0 \<or> 10 ^ k \<le> n \<Longrightarrow> length (str_nat n) = Suc k"
proof (induction k arbitrary: n)
  case 0
  then show ?case by (simp add: str_nat.simps [of n])
next
  case (Suc k)
  from Suc.prems have ge: "10 ^ Suc k \<le> n" by simp
  have "(10::nat) \<le> 10 ^ Suc k" by simp
  with ge have n10: "\<not> n < 10" by linarith
  from Suc.prems(1) have lt: "n div 10 < 10 ^ Suc k" by simp
  from ge have "10 ^ k \<le> n div 10" by simp
  with lt have "length (str_nat (n div 10)) = Suc k" by (intro Suc.IH) simp_all
  with n10 show ?case by (simp add: str_nat.simps [of n])
qed

lemma str_nat_length_lower: "10 ^ k \<le> n \<Longrightarrow> k < length (str_nat n)"
proof (induction k arbitrary: n)
  case 0
  then show ?case by (simp add: str_nat.simps [of n])
next
  case (Suc k)
  have "(10::nat) \<le> 10 ^ Suc k" by simp
  with Suc.prems have n10: "\<not> n < 10" by linarith
  from Suc.prems have "10 ^ k \<le> n div 10" by simp
  then have "k < length (str_nat (n div 10))" by (rule Suc.IH)
  with n10 show ?case by (simp add: str_nat.simps [of n])
qed

lemma clen_of_digits:
  assumes "0 < x" "1 \<le> n" "has_digits \<lfloor>x\<rfloor> n"
  shows "length (str_int (py_int x)) = n"
proof -
  obtain k where n: "n = Suc k" using assms(2) by (cases n) auto
  let ?i = "nat \<lfloor>x\<rfloor>"
  from assms(1) have i0: "0 \<le> \<lfloor>x\<rfloor>" by simp
  from assms(3) i0 have "?i < 10 ^ Suc k"
    by (simp add: has_digits_def n nat_less_iff)
  moreover from assms(3) i0 have "k = 0 \<or> 10 ^ k \<le> ?i"
    by (auto simp: has_digits_def n le_nat_iff split: if_splits)
  ultimately have "length (str_nat ?i) = Suc k" by (rule str_nat_length)
  with assms(1) i0 show ?thesis by (simp add: str_int_def py_int_def n)
qed

lemma ceiling_multiple_least:
  fixes r :: int and x :: real
  assumes "0 < r"
  shows "r dvd \<lceil>x / real_of_int r\<rceil> * r"
    and "x \<le> real_of_int (\<lceil>x / real_of_int r\<rceil> * r)"
    and "r dvd m' \<Longrightarrow> x \<le> real_of_int m' \<Longrightarrow> \<lceil>x / real_of_int r\<rceil> * r \<le> m'"
proof -
  show "r dvd \<lceil>x / real_of_int r\<rceil> * r" by simp
  have "x / real_of_int r \<le> real_of_int \<lceil>x / real_of_int r\<rceil>" by (rule le_of_int_ceiling)
  moreover from assms have rp: "0 < real_of_int r" by simp
  ultimately have "x \<le> real_of_int \<lceil>x / real_of_int r\<rceil> * real_of_int r"
    by (simp only: pos_divide_le_eq)
  then show "x \<le> real_of_int (\<lceil>x / real_of_int r\<rceil> * r)" by simp
  assume d: "r dvd m'" and le: "x \<le> real_of_int m'"
  from d obtain q where m': "m' = r * q" by (auto simp: dvd_def)
  from le assms have "x / real_of_int r \<le> real_of_int q"
    by (simp add: m' pos_divide_le_eq mult.commute)
  then have "\<lceil>x / real_of_int r\<rceil> \<le> q" by (simp add: ceiling_le_iff)
  with assms show "\<lceil>x / real_of_int r\<rceil> * r \<le> m'" by (simp add: m' mult.commute)
qed

lemma scaleround_lookup:
  "1 \<le> n \<Longrightarrow> n \<le> 9 \<Longrightarrow> map_of scaleround n = Some (round_unit n)"
proof -
  assume "1 \<le> n" "n \<le> 9"
  then have "n = 1 \<or> n = 2 \<or> n = 3 \<or> n = 4 \<or> n = 5 \<or> n = 6 \<or> n = 7 \<or> n = 8 \<or> n = 9"
    by arith
  then show ?thesis by (auto simp: scaleround_def round_unit_def)
qed

lemma scaleround_missing: "9 < n \<Longrightarrow> map_of scaleround n = None"
  by (simp add: scaleround_def)

lemma round_unit_pos: "0 < round_unit n"
  by (simp add: round_unit_def)

text \<open>
  Claim C9. For a positive \<open>current_scale\<close> whose integer part has \<open>n\<close> decimal digits,
  \<open>1 \<le> n \<le> 9\<close>, \<open>get_map_scale\<close> returns the least multiple of the rounding unit of
  \<open>n\<close> that is not below \<open>current_scale\<close> (so the result is never smaller than the input);
  for an integer part of ten or more digits it raises \<open>KeyError\<close>.
\<close>

theorem get_map_scale_least_multiple:
  "(0 < x \<and> 1 \<le> n \<and> n \<le> 9 \<and> has_digits \<lfloor>x\<rfloor> n \<longrightarrow>
      (\<exists>m. get_map_scale x = Inr m \<and> round_unit n dvd m \<and> x \<le> real_of_int m \<and>
           (\<forall>m'. round_unit n dvd m' \<and> x \<le> real_of_int m' \<longrightarrow> m \<le> m')))
   \<and> (0 < x \<and> 10 ^ 9 \<le> \<lfloor>x\<rfloor> \<longrightarrow> get_map_scale x = Inl KeyError)"
proof (intro conjI impI)
  assume a: "0 < x \<and> 1 \<le> n \<and> n \<le> 9 \<and> has_digits \<lfloor>x\<rfloor> n"
  then have clen: "length (str_int (py_int x)) = n" by (simp add: clen_of_digits)
  from a have look: "map_of scaleround n = Some (round_unit n)" by (simp add: scaleround_lookup)
  let ?m = "\<lceil>x / real_of_int (round_unit n)\<rceil> * round_unit n"
  have "get_map_scale x = Inr ?m" by (simp add: get_map_scale_def clen look)
  moreover have "round_unit n dvd ?m" by simp
  moreover have "x \<le> real_of_int ?m" by (rule ceiling_multiple_least(2) [OF round_unit_pos])
  moreover have "\<forall>m'. round_unit n dvd m' \<and> x \<le> real_of_int m' \<longrightarrow> ?m \<le> m'"
    using ceiling_multiple_least(3) [OF round_unit_pos] by blast
  ultimately show "\<exists>m. get_map_scale x = Inr m \<and> round_unit n dvd m \<and> x \<le> real_of_int m \<and>
           (\<forall>m'. round_unit n dvd m' \<and> x \<le> real_of_int m' \<longrightarrow> m \<le> m')" by blast
next
  assume a: "0 < x \<and> 10 ^ 9 \<le> \<lfloor>x\<rfloor>"
  then have "10 ^ 9 \<le> nat \<lfloor>x\<rfloor>" by (simp add: le_nat_iff)
  then have "9 < length (str_nat (nat \<lfloor>x\<rfloor>))" by (rule str_nat_length_lower)
  with a have "9 < length (str_int (py_int x))" by (simp add: str_int_def py_int_def)
  then show "get_map_scale x = Inl KeyError"
    by (simp add: get_map_scale_def scaleround_missing)
qed

theorem get_map_scale_least_multiple_witness:
  "(0::real) < 12345.6 \<and> has_digits \<lfloor>12345.6::real\<rfloor> 5 \<and> get_map_scale 12345.6 = Inr 12500
   \<and> (10::int) ^ 9 \<le> \<lfloor>1234567890.5::real\<rfloor> \<and> get_map_scale 1234567890.5 = Inl KeyError"
proof -
  have h: "has_digits \<lfloor>12345.6::real\<rfloor> 5" by (simp add: has_digits_def)
  have k: "(10::int) ^ 9 \<le> \<lfloor>1234567890.5::real\<rfloor>" by simp
  from get_map_scale_least_multiple [of "12345.6" 5] h
  obtain m where m: "get_map_scale 12345.6 = Inr m" "round_unit 5 dvd m" "12345.6 \<le> real_of_int m"
    "\<forall>m'. round_unit 5 dvd m' \<and> 12345.6 \<le> real_of_int m' \<longrightarrow> m \<le> m'" by auto
  from m(4) have "m \<le> 12500" by (simp add: round_unit_def)
  moreover from m(2) obtain q where q: "m = 2500 * q" by (auto simp: round_unit_def dvd_def)
  moreover from m(3) q have "4 < q" by simp
  ultimately have "m = 12500" by simp
  with m(1) have "get_map_scale 12345.6 = Inr 12500" by simp
  moreover from get_map_scale_least_multiple [of "1234567890.5" 0] k
  have "get_map_scale 1234567890.5 = Inl KeyError" by simp
  ultimately show ?thesis using h k by simp
qed

section \<open>Properties of the summary\<close>

subsection \<open>Sorting keeps the elements\<close>

lemma set_insort_by: "set (insort_by le x xs) = insert x (set xs)"
  by (induction xs) auto

lemma set_sort_by: "set (sort_by le xs) = set xs"
  unfolding sort_by_def by (induction xs) (auto simp: set_insort_by)

lemma set_sorted_keys: "set (sorted_keys ks) = set ks"
  by (simp add: sorted_keys_def set_sort_by)

subsection \<open>The pivot, the group sums and the merge, cell by cell\<close>

lemma map_of_graph: "map_of (map (\<lambda>k. (k, f k)) ks) k = (if k \<in> set ks then Some (f k) else None)"
  by (induction ks) auto

lemma map_of_zip_map: "map_of (zip xs (map f xs)) x = (if x \<in> set xs then Some (f x) else None)"
  by (induction xs) auto

lemma fillna0_simps: "fillna0 None = 0" "fillna0 (Some v) = v"
  by (simp_all add: fillna0_def)

lemma fillna0_agg_sum: "fillna0 (agg_sum xs) = sum_list xs"
  by (simp add: fillna0_def agg_sum_def)

lemma road_rows_map:
  "road_rows (map (\<lambda>f. [a f, b f, c f]) fs) =
     [(a f, b f, real_of_val (c f)). f \<leftarrow> fs, a f \<noteq> Null \<and> b f \<noteq> Null]"
  by (induction fs) (auto simp: road_rows_def)

lemma area_rows_map:
  "area_rows (map (\<lambda>f. [a f, c f]) fs) = [(a f, real_of_val (c f)). f \<leftarrow> fs, a f \<noteq> Null]"
  by (induction fs) (auto simp: area_rows_def)

lemma real_of_cursor_length:
  "real_of_val (cursor_value gis f ''SHAPE@LENGTH'') = feature_length gis f"
  by (simp add: cursor_value_def feature_length_def split: option.splits)

lemma real_of_cursor_area:
  "real_of_val (cursor_value gis f ''SHAPE@AREA'') = feature_area gis f"
  by (simp add: cursor_value_def feature_area_def split: option.splits)

text \<open>The sum of one pivot group is the length of the matching features.\<close>

lemma group_sum_road_length:
  assumes "k \<noteq> Null"
  shows "sum_list [l. (k', t', l) \<leftarrow> road_rows (map (\<lambda>f. [cursor_value gis f kf,
            cursor_value gis f ''ROAD_TYPE'', cursor_value gis f ''SHAPE@LENGTH'']) (rows t)),
            k' = k \<and> t' = Str rt]
         = road_length gis t kf k rt"
proof -
  have "sum_list [l. (k', t', l) \<leftarrow> [(cursor_value gis f kf, cursor_value gis f ''ROAD_TYPE'',
            real_of_val (cursor_value gis f ''SHAPE@LENGTH'')). f \<leftarrow> fs,
            cursor_value gis f kf \<noteq> Null \<and> cursor_value gis f ''ROAD_TYPE'' \<noteq> Null],
            k' = k \<and> t' = Str rt]
      = sum_list [feature_length gis f. f \<leftarrow> fs,
               cursor_value gis f kf = k \<and> cursor_value gis f ''ROAD_TYPE'' = Str rt]" for fs
    using assms by (induction fs) (auto simp: real_of_cursor_length)
  then show ?thesis by (simp add: road_rows_map road_length_def)
qed

lemma group_sum_polygon_area:
  assumes "k \<noteq> Null"
  shows "sum_list [a. (k', a) \<leftarrow> area_rows (map (\<lambda>f. [cursor_value gis f kf,
            cursor_value gis f ''SHAPE@AREA'']) (rows t)), k' = k]
         = polygon_area gis t kf k"
proof -
  have "sum_list [a. (k', a) \<leftarrow> [(cursor_value gis f kf,
            real_of_val (cursor_value gis f ''SHAPE@AREA'')). f \<leftarrow> fs,
            cursor_value gis f kf \<noteq> Null], k' = k]
      = sum_list [feature_area gis f. f \<leftarrow> fs, cursor_value gis f kf = k]" for fs
    using assms by (induction fs) (auto simp: real_of_cursor_area)
  then show ?thesis by (simp add: area_rows_map polygon_area_def)
qed

lemma filter_concat_empty:
  "k \<notin> (\<lambda>(k, t, l). k) ` set rs \<Longrightarrow> [l. (k', t', l) \<leftarrow> rs, k' = k \<and> t' = c] = []"
  by (induction rs) auto

lemma filter_concat_empty2:
  "k \<notin> fst ` set rs \<Longrightarrow> [a. (k', a) \<leftarrow> rs, k' = k] = []"
  by (induction rs) auto

lemma pivot_column:
  assumes "c \<in> set (pv_columns (pivot_table df))"
  shows "column (pv_columns (pivot_table df)) c
           (case map_of (pv_rows (pivot_table df)) k of
              None \<Rightarrow> map (\<lambda>t. 0) (pv_columns (pivot_table df)) | Some cs \<Rightarrow> cs)
         = sum_list [l. (k', t', l) \<leftarrow> road_rows df, k' = k \<and> t' = c]"
proof (cases "k \<in> (\<lambda>(k, t, l). k) ` set (road_rows df)")
  case True
  with assms show ?thesis
    by (simp add: pivot_table_def Let_def map_of_graph column_def map_of_zip_map
        fillna0_agg_sum set_sorted_keys fillna0_simps)
next
  case False
  then have e: "[l. (k', t', l) \<leftarrow> road_rows df, k' = k \<and> t' = c] = []"
    by (rule filter_concat_empty)
  from False assms have "column (pv_columns (pivot_table df)) c
           (case map_of (pv_rows (pivot_table df)) k of
              None \<Rightarrow> map (\<lambda>t. 0) (pv_columns (pivot_table df)) | Some cs \<Rightarrow> cs) = 0"
    by (simp add: pivot_table_def Let_def map_of_graph column_def map_of_zip_map
        set_sorted_keys fillna0_simps)
  then show ?thesis by (simp only: e sum_list.Nil)
qed

lemma groupby_area:
  "fillna0 (map_of (groupby_sum df) k) = sum_list [a. (k', a) \<leftarrow> area_rows df, k' = k]"
proof (cases "k \<in> fst ` set (area_rows df)")
  case True
  then show ?thesis
    by (simp add: groupby_sum_def Let_def map_of_graph set_sorted_keys fillna0_simps)
next
  case False
  then have e: "[a. (k', a) \<leftarrow> area_rows df, k' = k] = []" by (rule filter_concat_empty2)
  from False have "fillna0 (map_of (groupby_sum df) k) = 0"
    by (simp add: groupby_sum_def Let_def map_of_graph set_sorted_keys fillna0_simps)
  then show ?thesis by (simp only: e sum_list.Nil)
qed

lemma road_row_key: "(k, t, l) \<in> set (road_row r) \<Longrightarrow> k \<noteq> Null \<and> t \<noteq> Null"
  by (induction r rule: road_row.induct) (auto split: if_splits)

lemma road_rows_key: "(k, t, l) \<in> set (road_rows df) \<Longrightarrow> k \<noteq> Null \<and> t \<noteq> Null"
  by (auto simp: road_rows_def dest: road_row_key)

lemma area_row_key: "(k, a) \<in> set (area_row r) \<Longrightarrow> k \<noteq> Null"
  by (induction r rule: area_row.induct) (auto split: if_splits)

lemma area_rows_key: "(k, a) \<in> set (area_rows df) \<Longrightarrow> k \<noteq> Null"
  by (auto simp: area_rows_def dest: area_row_key)

lemma merge_outer_row:
  assumes "(k, a, cs) \<in> set (merge_outer (groupby_sum wdf) (pivot_table rdf))"
  shows "k \<noteq> Null"
    and "a = sum_list [a. (k', a) \<leftarrow> area_rows wdf, k' = k]"
    and "cs = (case map_of (pv_rows (pivot_table rdf)) k of
                 None \<Rightarrow> map (\<lambda>t. 0) (pv_columns (pivot_table rdf)) | Some cs \<Rightarrow> cs)"
proof -
  from assms have k: "k \<in> fst ` set (groupby_sum wdf) \<union> fst ` set (pv_rows (pivot_table rdf))"
    and a: "a = fillna0 (map_of (groupby_sum wdf) k)"
    and "cs = (case map_of (pv_rows (pivot_table rdf)) k of
                 None \<Rightarrow> map (\<lambda>t. 0) (pv_columns (pivot_table rdf)) | Some cs \<Rightarrow> cs)"
    by (auto simp: merge_outer_def set_sorted_keys)
  then show "cs = (case map_of (pv_rows (pivot_table rdf)) k of
                 None \<Rightarrow> map (\<lambda>t. 0) (pv_columns (pivot_table rdf)) | Some cs \<Rightarrow> cs)" by simp
  from a show "a = sum_list [a. (k', a) \<leftarrow> area_rows wdf, k' = k]" by (simp add: groupby_area)
  have "fst ` set (groupby_sum wdf) = fst ` set (area_rows wdf)"
    by (simp add: groupby_sum_def Let_def set_sorted_keys image_image)
  moreover have "fst ` set (pv_rows (pivot_table rdf)) = (\<lambda>(k, t, l). k) ` set (road_rows rdf)"
    by (simp add: pivot_table_def Let_def set_sorted_keys image_image)
  ultimately have "k \<in> fst ` set (area_rows wdf) \<union> (\<lambda>(k, t, l). k) ` set (road_rows rdf)"
    using k by simp
  then show "k \<noteq> Null" by (auto dest: road_rows_key area_rows_key)
qed

lemma summary_row_calculate:
  assumes run: "run_summary_analysis self gis w sp = Inr newdf"
    and kf: "value_of self ''in_watershed_id'' = Inr key_field"
    and sr: "dataset w sp = Some sr"
    and iw: "value_of self ''in_watershed'' = Inr in_ws"
    and ws: "dataset w in_ws = Some ws"
    and row: "row \<in> set newdf"
  shows "key row \<noteq> Null \<and>
         row = calculate (key row) (polygon_area gis ws key_field (key row))
                 (road_length gis sr key_field (key row) ''Pre-Development'')
                 (road_length gis sr key_field (key row) ''Proposed'')"
proof -
  define rdf where "rdf = map (\<lambda>f. [cursor_value gis f key_field,
      cursor_value gis f ''ROAD_TYPE'', cursor_value gis f ''SHAPE@LENGTH'']) (rows sr)"
  define wdf where "wdf = map (\<lambda>f. [cursor_value gis f key_field,
      cursor_value gis f ''SHAPE@AREA'']) (rows ws)"
  define cols where "cols = pv_columns (pivot_table rdf)"
  from run kf sr iw ws have c_pre: "Str ''Pre-Development'' \<in> set cols"
    and c_prop: "Str ''Proposed'' \<in> set cols"
    and newdf: "newdf = map (\<lambda>(k, area, cells).
        calculate k area (column cols (Str ''Pre-Development'') cells)
                         (column cols (Str ''Proposed'') cells))
        (merge_outer (groupby_sum wdf) (pivot_table rdf))"
    by (auto simp: run_summary_analysis_def bindS_def table_to_dataframe_def SearchCursor_def
        Let_def rdf_def wdf_def cols_def split: if_splits)
  from row newdf obtain k a cs where m: "(k, a, cs) \<in> set (merge_outer (groupby_sum wdf) (pivot_table rdf))"
    and r: "row = calculate k a (column cols (Str ''Pre-Development'') cs)
                                (column cols (Str ''Proposed'') cs)"
    by auto
  note mr = merge_outer_row [OF m]
  from r have kr: "key row = k" by (simp add: calculate_def Let_def)
  have a: "a = polygon_area gis ws key_field k"
    using mr(2) group_sum_polygon_area [OF mr(1), where gis = gis and kf = key_field and t = ws]
    by (simp add: wdf_def)
  have p1: "column cols (Str ''Pre-Development'') cs = road_length gis sr key_field k ''Pre-Development''"
    using pivot_column [of "Str ''Pre-Development''" rdf k] c_pre mr(3)
      group_sum_road_length [OF mr(1), where gis = gis and kf = key_field and t = sr
        and rt = "''Pre-Development''"]
    by (simp add: cols_def rdf_def)
  have p2: "column cols (Str ''Proposed'') cs = road_length gis sr key_field k ''Proposed''"
    using pivot_column [of "Str ''Proposed''" rdf k] c_prop mr(3)
      group_sum_road_length [OF mr(1), where gis = gis and kf = key_field and t = sr
        and rt = "''Proposed''"]
    by (simp add: cols_def rdf_def)
  from r a p1 p2 kr mr(1) show ?thesis by simp
qed


lemma summary_row_shape:
  assumes "run_summary_analysis self gis w sp = Inr newdf" and "row \<in> set newdf"
  shows "\<exists>k a p q. row = calculate k a p q"
  using assms
  by (auto simp: run_summary_analysis_def bindS_def Let_def split: sum.splits if_splits) blast

lemma py_fdiv_pos: "0 < b \<Longrightarrow> py_fdiv a b = Fin (a / b)"
  by (simp add: py_fdiv_def)

text \<open>
  Claim C1. For every row of the frame that \<open>run_summary_analysis\<close> returns whose
  \<open>watershed_area\<close> is positive: the watershed area is the polygon area of that watershed
  divided by 1000000, \<open>original_road_density\<close> is the pre-development road length recorded
  for the watershed in the overlay result, divided by 1000, over that area, and
  \<open>future_road_density\<close> is the sum of the pre-development and the proposed road lengths,
  divided by 1000, over that area.
\<close>

theorem run_summary_analysis_densities:
  assumes "run_summary_analysis self gis w spatial_result = Inr newdf"
    and "value_of self ''in_watershed_id'' = Inr key_field"
    and "dataset w spatial_result = Some sr"
    and "value_of self ''in_watershed'' = Inr in_watershed"
    and "dataset w in_watershed = Some ws"
    and "row \<in> set newdf"
    and "0 < watershed_area row"
  shows "watershed_area row = polygon_area gis ws key_field (key row) / 1000000
    \<and> original_road_density row =
        Fin ((road_length gis sr key_field (key row) ''Pre-Development'' / 1000)
             / (polygon_area gis ws key_field (key row) / 1000000))
    \<and> future_road_density row =
        Fin (((road_length gis sr key_field (key row) ''Pre-Development''
               + road_length gis sr key_field (key row) ''Proposed'') / 1000)
             / (polygon_area gis ws key_field (key row) / 1000000))"
proof -
  let ?a = "polygon_area gis ws key_field (key row)"
  let ?p = "road_length gis sr key_field (key row) ''Pre-Development''"
  let ?q = "road_length gis sr key_field (key row) ''Proposed''"
  from summary_row_calculate [OF assms(1-6)]
  have row: "row = calculate (key row) ?a ?p ?q" by simp
  have area: "watershed_area (calculate (key row) ?a ?p ?q) = ?a / 1000000"
    by (simp add: calculate_def Let_def)
  with row have wa: "watershed_area row = ?a / 1000000" by simp
  with assms(7) have pos: "0 < ?a / 1000000" by simp
  have "original_road_density (calculate (key row) ?a ?p ?q) = Fin ((?p / 1000) / (?a / 1000000))"
    using pos by (simp add: calculate_def Let_def py_fdiv_def)
  with row have o: "original_road_density row = Fin ((?p / 1000) / (?a / 1000000))" by simp
  have "future_road_density (calculate (key row) ?a ?p ?q)
        = Fin (((?p + ?q) / 1000) / (?a / 1000000))"
    using pos by (simp add: calculate_def Let_def py_fdiv_def add_divide_distrib)
  with row have f: "future_road_density row = Fin (((?p + ?q) / 1000) / (?a / 1000000))" by simp
  from wa o f show ?thesis by simp
qed

text \<open>
  Claim C7. For every row with positive \<open>watershed_area\<close> and non-negative aggregated road
  lengths, \<open>future_road_density\<close> is at least \<open>original_road_density\<close> (only the proposed
  length has to be non-negative for it).
\<close>

theorem future_density_not_below_original:
  assumes "run_summary_analysis self gis w spatial_result = Inr newdf"
    and "row \<in> set newdf"
    and "0 < watershed_area row"
    and "0 \<le> Pre_Development row" and "0 \<le> Proposed row"
  shows "pf_leq (original_road_density row) (future_road_density row)"
proof -
  from summary_row_shape [OF assms(1,2)] obtain k a p q where row: "row = calculate k a p q"
    by blast
  from assms(3) row have pos: "0 < a / 1000000" by (simp add: calculate_def Let_def)
  from assms(5) row have q: "0 \<le> q" by (simp add: calculate_def Let_def)
  have "p / 1000 / (a / 1000000) \<le> (p / 1000 + q / 1000) / (a / 1000000)"
    using pos q by (intro divide_right_mono) simp_all
  with pos show ?thesis
    by (simp add: row calculate_def Let_def py_fdiv_def)
qed

subsection \<open>The summary of the example overlay\<close>

lemma example_summary:
  "run_summary_analysis example_tool example_gis (store ''ov'' example_overlay example_world) ''ov''
     = Inr [calculate (Str ''A'') 10000000 2000 1000]"
  by (simp add: run_summary_analysis_def example_tool_def example_gis_def example_world_def example_sheds_def
      example_overlay_def text_field_def bindS_def value_of_def get_param_by_name_def
      table_to_dataframe_def SearchCursor_def dataset_def store_def readable_def is_token_def
      field_names_def cursor_value_def attr_of_def pivot_table_def road_rows_def sorted_keys_def
      sort_by_def agg_sum_def fillna0_def groupby_sum_def area_rows_def merge_outer_def
      column_def Let_def)

lemma example_lookups:
  "value_of example_tool ''in_watershed_id'' = Inr ''WS''"
  "value_of example_tool ''in_watershed'' = Inr ''sheds''"
  "dataset (store ''ov'' example_overlay example_world) ''ov'' = Some example_overlay"
  "dataset (store ''ov'' example_overlay example_world) ''sheds'' = Some example_sheds"
  by (simp_all add: value_of_def get_param_by_name_def example_tool_def dataset_def store_def
      example_world_def example_sheds_def)

lemma example_lengths:
  "road_length example_gis example_overlay ''WS'' (Str ''A'') ''Pre-Development'' = 2000"
  "road_length example_gis example_overlay ''WS'' (Str ''A'') ''Proposed'' = 1000"
  "polygon_area example_gis example_sheds ''WS'' (Str ''A'') = 10000000"
  by (simp_all add: road_length_def polygon_area_def example_overlay_def example_sheds_def
      example_gis_def cursor_value_def attr_of_def feature_length_def feature_area_def)

theorem run_summary_analysis_densities_witness:
  "run_summary_analysis example_tool example_gis (store ''ov'' example_overlay example_world) ''ov''
     = Inr [calculate (Str ''A'') 10000000 2000 1000]
   \<and> 0 < watershed_area (calculate (Str ''A'') 10000000 2000 1000)
   \<and> watershed_area (calculate (Str ''A'') 10000000 2000 1000) = 10
   \<and> original_road_density (calculate (Str ''A'') 10000000 2000 1000) = Fin (2 / 10)
   \<and> future_road_density (calculate (Str ''A'') 10000000 2000 1000) = Fin (3 / 10)"
proof -
  let ?row = "calculate (Str ''A'') 10000000 2000 1000"
  have m: "?row \<in> set [?row]" by simp
  have pos: "0 < watershed_area ?row" by (simp add: calculate_def Let_def)
  have k: "key ?row = Str ''A''" by (simp add: calculate_def Let_def)
  from run_summary_analysis_densities [OF example_summary example_lookups(1,3,2,4) m pos]
  have "watershed_area ?row = 10 \<and> original_road_density ?row = Fin (2 / 10)
      \<and> future_road_density ?row = Fin (3 / 10)"
    by (simp add: k example_lengths)
  with example_summary pos show ?thesis by simp
qed

theorem future_density_not_below_original_witness:
  "run_summary_analysis example_tool example_gis (store ''ov'' example_overlay example_world) ''ov''
     = Inr [calculate (Str ''A'') 10000000 2000 1000]
   \<and> 0 < watershed_area (calculate (Str ''A'') 10000000 2000 1000)
   \<and> 0 \<le> Pre_Development (calculate (Str ''A'') 10000000 2000 1000)
   \<and> 0 \<le> Proposed (calculate (Str ''A'') 10000000 2000 1000)
   \<and> pf_leq (original_road_density (calculate (Str ''A'') 10000000 2000 1000))
            (future_road_density (calculate (Str ''A'') 10000000 2000 1000))"
proof -
  let ?row = "calculate (Str ''A'') 10000000 2000 1000"
  have m: "?row \<in> set [?row]" by simp
  have pos: "0 < watershed_area ?row" by (simp add: calculate_def Let_def)
  have p: "0 \<le> Pre_Development ?row" by (simp add: calculate_def Let_def)
  have q: "0 \<le> Proposed ?row" by (simp add: calculate_def Let_def)
  note le = future_density_not_below_original [OF example_summary m pos p q]
  show ?thesis by (intro conjI) (rule example_summary pos p q le)+
qed

section \<open>Properties of the report\<close>

lemma pf_leq_total: "a \<noteq> NaN \<Longrightarrow> b \<noteq> NaN \<Longrightarrow> pf_leq a b \<or> pf_leq b a"
  by (cases a; cases b) auto

lemma pf_leq_trans: "pf_leq a b \<Longrightarrow> pf_leq b c \<Longrightarrow> pf_leq a c"
  by (cases a; cases b; cases c) auto

lemma pf_leq_not_NaN: "pf_leq a b \<Longrightarrow> a \<noteq> NaN \<and> b \<noteq> NaN"
  by (cases a; cases b) auto

lemma desc_before_total: "desc_before a b \<or> desc_before b a"
  using pf_leq_total [of a b] by (auto simp: desc_before_def)

lemma desc_before_trans: "desc_before a b \<Longrightarrow> desc_before b c \<Longrightarrow> desc_before a c"
  by (auto simp: desc_before_def dest: pf_leq_trans pf_leq_not_NaN)

lemma sorted_wrt_insort_by:
  assumes total: "\<And>x y. le x y \<or> le y x"
    and trans: "\<And>x y z. le x y \<Longrightarrow> le y z \<Longrightarrow> le x z"
    and "sorted_wrt le xs"
  shows "sorted_wrt le (insort_by le x xs)"
  using assms(3)
proof (induction xs)
  case Nil
  then show ?case by simp
next
  case (Cons y ys)
  show ?case
  proof (cases "le x y")
    case True
    with Cons.prems show ?thesis by (auto intro: trans)
  next
    case False
    with total have "le y x" by blast
    with Cons False show ?thesis by (auto simp: set_insort_by)
  qed
qed

lemma sorted_wrt_sort_by:
  assumes "\<And>x y. le x y \<or> le y x" and "\<And>x y z. le x y \<Longrightarrow> le y z \<Longrightarrow> le x z"
  shows "sorted_wrt le (sort_by le xs)"
  unfolding sort_by_def
  by (induction xs) (simp_all add: sorted_wrt_insort_by [OF assms])

lemma length_sort_by: "length (sort_by le xs) = length xs"
proof -
  have "length (insort_by le x ys) = Suc (length ys)" for x ys
    by (induction ys) auto
  then show ?thesis unfolding sort_by_def by (induction xs) auto
qed

lemma sort_by_Nil_iff: "sort_by le xs = [] \<longleftrightarrow> xs = []"
  using length_sort_by [of le xs] by (metis length_0_conv)

lemma report_values_sorted:
  "sorted_wrt (\<lambda>a b. desc_before (snd (snd (snd a))) (snd (snd (snd b)))) (report_values df)"
proof -
  let ?le = "\<lambda>a b. desc_before (change_in_density a) (change_in_density b)"
  have "sorted_wrt ?le (sort_by ?le df)"
  proof (rule sorted_wrt_sort_by)
    show "?le x y \<or> ?le y x" for x y by (rule desc_before_total)
    show "?le x y \<Longrightarrow> ?le y z \<Longrightarrow> ?le x z" for x y z by (rule desc_before_trans)
  qed
  then have "sorted_wrt ?le (take 20 (sort_by ?le df))"
    by (rule sorted_wrt_take)
  then show ?thesis
    by (simp add: report_values_def take_map sorted_wrt_map)
qed

lemma report_values_length: "length (report_values df) \<le> 20"
  by (simp add: report_values_def)

lemma report_values_Nil_iff: "report_values df = [] \<longleftrightarrow> df = []"
  by (simp add: report_values_def sort_by_Nil_iff)

lemma report_values_rows:
  "\<exists>rs. set rs \<subseteq> set df \<and>
     report_values df = map (\<lambda>r. (key r, original_road_density r, future_road_density r,
        py_fabs (py_fsub (original_road_density r) (future_road_density r)))) rs"
proof -
  let ?rs = "take 20 (sort_by (\<lambda>a b. desc_before (change_in_density a) (change_in_density b)) df)"
  have "set ?rs \<subseteq> set df"
    using set_take_subset [of 20 "sort_by (\<lambda>a b. desc_before (change_in_density a) (change_in_density b)) df"]
    by (simp add: set_sort_by)
  moreover have "report_values df = map (\<lambda>r. (key r, original_road_density r, future_road_density r,
        py_fabs (py_fsub (original_road_density r) (future_road_density r)))) ?rs"
    by (simp add: report_values_def take_map change_in_density_def)
  ultimately show ?thesis by blast
qed


text \<open>
  Claim C3. Every line that \<open>simple_report\<close> writes after the header belongs to a row of the
  result frame and shows that row's key, its \<open>original_road_density\<close>, its
  \<open>future_road_density\<close> and the absolute value of their difference; a frame of at most 20
  rows has all its rows reported.
\<close>

theorem simple_report_change:
  assumes "simple_report self fm result_df = Inr output_table" and "result_df \<noteq> []"
  shows "\<exists>key_field rs. set rs \<subseteq> set result_df
      \<and> (length result_df \<le> 20 \<longrightarrow> set rs = set result_df)
      \<and> output_table = str_join [CHR 0x0A] (report_header key_field #
          map (\<lambda>r. format_key fm (key r) @ '' '' @ fmt_f6 fm (original_road_density r) @ '' ''
                 @ fmt_f6 fm (future_road_density r) @ '' ''
                 @ fmt_f6 fm (py_fabs (py_fsub (original_road_density r) (future_road_density r))))
              rs)"
proof -
  let ?le = "\<lambda>a b. desc_before (change_in_density a) (change_in_density b)"
  let ?rs = "take 20 (sort_by ?le result_df)"
  from assms(2) have ne: "report_values result_df \<noteq> []" by (simp add: report_values_Nil_iff)
  from assms(1) ne obtain key_field where
    out: "output_table = str_join [CHR 0x0A] (report_items fm key_field result_df)"
    by (auto simp: simple_report_def bindS_def split: sum.splits)
  have sub: "set ?rs \<subseteq> set result_df"
    using set_take_subset [of 20 "sort_by ?le result_df"] by (simp add: set_sort_by)
  have all: "length result_df \<le> 20 \<longrightarrow> set ?rs = set result_df"
    by (simp add: length_sort_by set_sort_by)
  have "report_items fm key_field result_df = report_header key_field #
          map (\<lambda>r. format_key fm (key r) @ '' '' @ fmt_f6 fm (original_road_density r) @ '' ''
                 @ fmt_f6 fm (future_road_density r) @ '' ''
                 @ fmt_f6 fm (py_fabs (py_fsub (original_road_density r) (future_road_density r))))
              ?rs"
    by (simp add: report_items_def report_values_def take_map format_row_def change_in_density_def)
  with out have out': "output_table = str_join [CHR 0x0A] (report_header key_field #
          map (\<lambda>r. format_key fm (key r) @ '' '' @ fmt_f6 fm (original_road_density r) @ '' ''
                 @ fmt_f6 fm (future_road_density r) @ '' ''
                 @ fmt_f6 fm (py_fabs (py_fsub (original_road_density r) (future_road_density r))))
              ?rs)"
    by (simp only:)
  show ?thesis
  proof (intro exI conjI)
    show "set ?rs \<subseteq> set result_df" by (rule sub)
    show "length result_df \<le> 20 \<longrightarrow> set ?rs = set result_df" by (rule all)
    show "output_table = str_join [CHR 0x0A] (report_header key_field #
          map (\<lambda>r. format_key fm (key r) @ '' '' @ fmt_f6 fm (original_road_density r) @ '' ''
                 @ fmt_f6 fm (future_road_density r) @ '' ''
                 @ fmt_f6 fm (py_fabs (py_fsub (original_road_density r) (future_road_density r))))
              ?rs)" by (rule out')
  qed
qed



lemma example_digits:
  "str_int 0 = ''0''" "str_int 100000 = ''100000''" "str_int 200000 = ''200000''"
  "str_int 300000 = ''300000''" "str_int 500000 = ''500000''"
  by (simp_all add: str_int_def str_nat.simps digit_char_def)

theorem simple_report_change_witness:
  "simple_report example_tool example_fmt example_rows
     = Inr (report_header ''WS'' @ [CHR 0x0A] @ ''B 0 500000 500000'' @ [CHR 0x0A]
            @ ''A 200000 300000 100000'' @ [CHR 0x0A] @ ''C nan nan nan'')
   \<and> example_rows \<noteq> []
   \<and> (\<exists>key_field rs. set rs \<subseteq> set example_rows \<and> (length example_rows \<le> 20 \<longrightarrow> set rs = set example_rows)
      \<and> report_header ''WS'' @ [CHR 0x0A] @ ''B 0 500000 500000'' @ [CHR 0x0A]
            @ ''A 200000 300000 100000'' @ [CHR 0x0A] @ ''C nan nan nan''
        = str_join [CHR 0x0A] (report_header key_field #
          map (\<lambda>r. format_key example_fmt (key r) @ '' '' @ fmt_f6 example_fmt (original_road_density r) @ '' ''
                 @ fmt_f6 example_fmt (future_road_density r) @ '' ''
                 @ fmt_f6 example_fmt (py_fabs (py_fsub (original_road_density r) (future_road_density r))))
              rs))"
proof -
  have run: "simple_report example_tool example_fmt example_rows
     = Inr (report_header ''WS'' @ [CHR 0x0A] @ ''B 0 500000 500000'' @ [CHR 0x0A]
            @ ''A 200000 300000 100000'' @ [CHR 0x0A] @ ''C nan nan nan'')"
    by (simp add: simple_report_def bindS_def value_of_def get_param_by_name_def example_tool_def
        report_values_def report_items_def example_rows_def calculate_def Let_def py_fdiv_def
        change_in_density_def sort_by_def desc_before_def format_row_def example_fmt_def
        example_digits)
  have ne: "example_rows \<noteq> []" by (simp add: example_rows_def)
  note ex = simple_report_change [OF run ne]
  show ?thesis by (rule conjI, rule run, rule conjI, rule ne, rule ex)
qed

text \<open>
  Claim C8. \<open>simple_report\<close> writes at most 20 rows after the header (the first 20 of the
  sorted frame), in descending order of \<open>change_in_density\<close> (every row's change is at
  least the next one's, rows whose change is NaN come last), and for a frame without
  rows it returns the text \<^verbatim>\<open>Unable to find assessment data\<close>.
\<close>

theorem simple_report_top_twenty:
  assumes "value_of self ''in_watershed_id'' = Inr key_field"
  shows "simple_report self fm result_df =
           Inr (if result_df = [] then ''Unable to find assessment data''
                else str_join [CHR 0x0A]
                       (report_header key_field # map (format_row fm) (report_values result_df)))
    \<and> length (report_values result_df) = min 20 (length result_df)
    \<and> sorted_wrt (\<lambda>a b. snd (snd (snd b)) = NaN \<or> pf_leq (snd (snd (snd b))) (snd (snd (snd a))))
          (report_values result_df)"
proof (intro conjI)
  show "simple_report self fm result_df =
           Inr (if result_df = [] then ''Unable to find assessment data''
                else str_join [CHR 0x0A]
                       (report_header key_field # map (format_row fm) (report_values result_df)))"
    using assms
    by (simp add: simple_report_def bindS_def report_items_def report_values_Nil_iff)
  show "length (report_values result_df) = min 20 (length result_df)"
    by (simp add: report_values_def length_sort_by min.commute)
  from report_values_sorted [of result_df]
  show "sorted_wrt (\<lambda>a b. snd (snd (snd b)) = NaN \<or> pf_leq (snd (snd (snd b))) (snd (snd (snd a))))
          (report_values result_df)"
    by (simp add: desc_before_def)
qed

theorem simple_report_top_twenty_witness:
  "value_of example_tool ''in_watershed_id'' = Inr ''WS''
   \<and> simple_report example_tool example_fmt [] = Inr ''Unable to find assessment data''
   \<and> simple_report example_tool example_fmt example_rows =
       Inr (str_join [CHR 0x0A]
              (report_header ''WS'' # map (format_row example_fmt) (report_values example_rows)))
   \<and> length (report_values example_rows) = 3
   \<and> map (\<lambda>row. fst row) (report_values example_rows) = [Str ''B'', Str ''A'', Str ''C'']"
proof -
  have v: "value_of example_tool ''in_watershed_id'' = Inr ''WS''"
    by (simp add: value_of_def get_param_by_name_def example_tool_def)
  have ne: "example_rows \<noteq> []" by (simp add: example_rows_def)
  have order: "map (\<lambda>row. fst row) (report_values example_rows) = [Str ''B'', Str ''A'', Str ''C'']"
    by (simp add: report_values_def example_rows_def calculate_def Let_def py_fdiv_def
        change_in_density_def sort_by_def desc_before_def)
  from simple_report_top_twenty [OF v, of example_fmt "[]"]
  have e: "simple_report example_tool example_fmt [] = Inr ''Unable to find assessment data''"
    by simp
  from simple_report_top_twenty [OF v, of example_fmt example_rows] ne
  have r: "simple_report example_tool example_fmt example_rows =
       Inr (str_join [CHR 0x0A]
              (report_header ''WS'' # map (format_row example_fmt) (report_values example_rows)))"
    and l: "length (report_values example_rows) = min 20 (length example_rows)"
    by simp_all
  from l have l3: "length (report_values example_rows) = 3" by (simp add: example_rows_def)
  show ?thesis by (intro conjI) (rule v e r l3 order)+
qed

section \<open>Properties of the overlay\<close>

subsection \<open>Running the geoprocessing tools step by step\<close>

lemma bindE_liftE [simp]: "bindE (liftE (Inr a)) f = f a"
  by (simp add: bindE_def liftE_def)

lemma bindE_ret [simp]: "bindE (ret a) f = f a"
  by (simp add: bindE_def ret_def)

lemma bindE_modify: "bindE (modify g) f w = f () (g w)"
  by (simp add: bindE_def modify_def)

lemma bindE_open_dataset: "dataset w p = Some t \<Longrightarrow> bindE (open_dataset p) f w = f t w"
  by (simp add: bindE_def open_dataset_def reading_def)

lemma dataset_store: "dataset (store p t w) q = (if q = p then Some t else dataset w q)"
  by (simp add: dataset_def store_def)

lemma os_path_join_inject [simp]: "os_path_join a b = os_path_join a c \<longleftrightarrow> b = c"
  by (auto simp: os_path_join_def)

lemma update_all_tagged: "update_all ''ROAD_TYPE'' (Str v) fs = tagged v fs"
  by (induction fs) (simp_all add: tagged_def)

lemma bindE_assoc: "bindE (bindE m f) g = bindE m (\<lambda>a. bindE (f a) g)"
  by (auto simp: bindE_def fun_eq_iff split: prod.splits sum.splits)

lemma CopyFeatures_run:
  "dataset w p = Some t \<Longrightarrow> bindE (CopyFeatures_management p out) f w = f () (store out t w)"
  by (simp add: CopyFeatures_management_def bindE_assoc bindE_open_dataset bindE_modify)

lemma field_names_add_field: "n \<in> set (field_names (add_field \<lparr>field_name = n, field_type = ty,
    field_alias = al, field_length = le, field_precision = pr, field_scale = sc\<rparr> t))"
  by (simp add: add_field_def field_names_def)

lemma add_constant_field_run:
  assumes "dataset w p = Some t"
  shows "bindE (add_constant_field p ''ROAD_TYPE'' v) f w =
         f () (store p \<lparr>schema = schema (add_field (road_type_field v) t),
                        rows = tagged v (rows t)\<rparr> (store p (add_field (road_type_field v) t) w))"
proof -
  have r: "rows (add_field (road_type_field v) t) = rows t" by (simp add: add_field_def)
  have n: "''ROAD_TYPE'' \<in> set (field_names (add_field (road_type_field v) t))"
    unfolding road_type_field_def by (rule field_names_add_field)
  have e: "(add_field (road_type_field v) t)\<lparr>rows := tagged v (rows t)\<rparr>
        = \<lparr>schema = schema (add_field (road_type_field v) t), rows = tagged v (rows t)\<rparr>"
    by simp
  show ?thesis
    unfolding add_constant_field_def road_type_field_def [symmetric]
    using assms n
    by (simp add: AddField_management_def bindE_assoc bindE_open_dataset
        bindE_modify dataset_store update_all_tagged r e)
qed

lemma Merge_run:
  "dataset w p = Some a \<Longrightarrow> dataset w q = Some b \<Longrightarrow>
   bindE (Merge_management p q out) f w =
   f () (store out \<lparr>schema = merge_fields (schema a) (schema b), rows = rows a @ rows b\<rparr> w)"
  by (simp add: Merge_management_def bindE_assoc bindE_open_dataset bindE_modify)

lemma Intersect_run:
  "dataset w p = Some a \<Longrightarrow> dataset w q = Some b \<Longrightarrow>
   bindE (Intersect_analysis gis p q out) f w =
   f () (store out \<lparr>schema = merge_fields (schema a) (schema b),
                     rows = intersect_rows gis (rows a) (rows b)\<rparr> w)"
  by (simp add: Intersect_analysis_def bindE_assoc bindE_open_dataset bindE_modify)

lemma MakeFeatureLayer_run:
  "dataset w p = Some t \<Longrightarrow> bindE (MakeFeatureLayer_management p) f w = f t w"
  by (simp add: MakeFeatureLayer_management_def bindE_open_dataset)

lemma SelectLayerByLocation_run:
  "dataset w q = Some sheds \<Longrightarrow>
   bindE (SelectLayerByLocation_management gis lyr q) f w =
   f (lyr\<lparr>rows := filter (\<lambda>s. list_ex (shapes_intersect gis s) (rows sheds)) (rows lyr)\<rparr>) w"
  by (simp add: SelectLayerByLocation_management_def bindE_assoc bindE_open_dataset)

lemma Buffer_run:
  "bindE (Buffer_analysis gis lyr out d) f w =
   f () (store out \<lparr>schema = [], rows = buffer_rows gis d (rows lyr)\<rparr> w)"
  by (simp add: Buffer_analysis_def bindE_modify)


lemma apart_simps:
  assumes "p \<notin> set (intermediate ws)"
  shows "p \<noteq> os_path_join ws ''stream_buffer''" "p \<noteq> os_path_join ws ''original_roads''"
    "p \<noteq> os_path_join ws ''proposed_roads''" "p \<noteq> os_path_join ws ''roads_combined''"
    "p \<noteq> os_path_join ws ''intersected_streams_roads''"
    "p \<noteq> os_path_join ws ''intersected_roads_watershed''"
  using assms by (auto simp: intermediate_def)

lemma run_spatial_analysis_run:
  assumes cfg: "dict_get (config self) ''workspace'' = Inr ws"
    and ps: "value_of self ''in_streams'' = Inr in_streams"
      "value_of self ''in_watershed'' = Inr in_watershed"
      "value_of self ''in_distance'' = Inr distance"
      "value_of self ''in_roads'' = Inr in_roads"
      "value_of self ''in_proposed_roads'' = Inr in_prop"
    and ds: "dataset w in_streams = Some streams" "dataset w in_watershed = Some sheds"
      "dataset w in_roads = Some roads" "dataset w in_prop = Some proposed"
    and apart: "in_roads \<notin> set (intermediate ws)" "in_prop \<notin> set (intermediate ws)"
      "in_watershed \<notin> set (intermediate ws)"
  shows "run_spatial_analysis self gis w =
         (Inr (os_path_join ws ''intersected_roads_watershed''),
          spatial_world gis ws distance streams sheds roads proposed w)"
  unfolding run_spatial_analysis_def spatial_world_def Let_def
  by (simp add: cfg ps ds apart_simps [OF apart(1)] apart_simps [OF apart(2)]
      apart_simps [OF apart(3)] MakeFeatureLayer_run SelectLayerByLocation_run Buffer_run
      CopyFeatures_run add_constant_field_run Merge_run Intersect_run dataset_store
      selected_streams_def ret_def)

subsection \<open>What the overlay keeps of every road\<close>

lemma intersect_rows_append:
  "intersect_rows gis (a @ b) c = intersect_rows gis a c @ intersect_rows gis b c"
  by (simp add: intersect_rows_def)

lemma intersect_rows_Nil [simp]: "intersect_rows gis [] c = []"
  by (simp add: intersect_rows_def)

lemma intersect_rows_Cons:
  "intersect_rows gis (r # rs) c = intersect_rows gis [r] c @ intersect_rows gis rs c"
  by (simp add: intersect_rows_def)

lemma overlay_attrs:
  "f \<in> set (overlay gis a b) \<Longrightarrow> attrs f = attrs a @ attrs b"
  by (auto simp: overlay_def split: option.splits)

lemma intersect_rows_attrs:
  assumes "f \<in> set (intersect_rows gis as bs)"
  shows "\<exists>a\<in>set as. \<exists>b\<in>set bs. attrs f = attrs a @ attrs b"
  using assms by (auto simp: intersect_rows_def dest: overlay_attrs)

lemma map_of_dict_set: "map_of (dict_set k v d) k = Some v"
  by (induction d) auto

lemma tagged_road_type:
  "r \<in> set (tagged v fs) \<Longrightarrow> map_of (attrs r) ''ROAD_TYPE'' = Some (Str v)"
  by (auto simp: tagged_def set_field_def map_of_dict_set)

lemma overlay_keeps_road_type:
  assumes "f \<in> set (intersect_rows gis (intersect_rows gis (tagged v fs) buffer) sheds)"
  shows "cursor_value gis f ''ROAD_TYPE'' = Str v"
proof -
  from intersect_rows_attrs [OF assms] obtain a b
    where a: "a \<in> set (intersect_rows gis (tagged v fs) buffer)" and "b \<in> set sheds"
      and f: "attrs f = attrs a @ attrs b"
    by blast
  from intersect_rows_attrs [OF a] obtain r c
    where r: "r \<in> set (tagged v fs)" and "c \<in> set buffer"
      and a': "attrs a = attrs r @ attrs c"
    by blast
  from tagged_road_type [OF r] f a' have "map_of (attrs f) ''ROAD_TYPE'' = Some (Str v)"
    by simp
  then show ?thesis by (simp add: cursor_value_def attr_of_def)
qed

lemma road_length_rows:
  "road_length gis \<lparr>schema = sch, rows = fs\<rparr> kf k rt =
     sum_list [feature_length gis f. f \<leftarrow> fs,
               cursor_value gis f kf = k \<and> cursor_value gis f ''ROAD_TYPE'' = Str rt]"
  by (simp add: road_length_def)

lemma sum_filter_append:
  "sum_list [g f. f \<leftarrow> xs @ ys, P f] = sum_list [g f. f \<leftarrow> xs, P f] + sum_list [g f. f \<leftarrow> ys, P f]"
  by simp

lemma sum_filter_cong:
  "(\<And>f. f \<in> set xs \<Longrightarrow> P f = Q f) \<Longrightarrow> sum_list [g f. f \<leftarrow> xs, P f] = sum_list [g f. f \<leftarrow> xs, Q f]"
  by (induction xs) auto

lemma sum_filter_none:
  "(\<And>f. f \<in> set xs \<Longrightarrow> \<not> P f) \<Longrightarrow> sum_list [g f. f \<leftarrow> xs, P f] = 0"
  by (induction xs) auto

lemma road_length_of_network:
  assumes "v \<noteq> u"
  shows "sum_list [feature_length gis f.
            f \<leftarrow> intersect_rows gis (intersect_rows gis (tagged v as @ tagged u bs) buffer) sheds,
            cursor_value gis f kf = k \<and> cursor_value gis f ''ROAD_TYPE'' = Str v]
         = overlay_length gis (tagged v as) buffer sheds kf k"
    and "sum_list [feature_length gis f.
            f \<leftarrow> intersect_rows gis (intersect_rows gis (tagged v as @ tagged u bs) buffer) sheds,
            cursor_value gis f kf = k \<and> cursor_value gis f ''ROAD_TYPE'' = Str u]
         = overlay_length gis (tagged u bs) buffer sheds kf k"
proof -
  let ?A = "intersect_rows gis (intersect_rows gis (tagged v as) buffer) sheds"
  let ?B = "intersect_rows gis (intersect_rows gis (tagged u bs) buffer) sheds"
  have split: "intersect_rows gis (intersect_rows gis (tagged v as @ tagged u bs) buffer) sheds
      = ?A @ ?B"
    by (simp add: intersect_rows_append)
  have Av: "sum_list [feature_length gis f. f \<leftarrow> ?A,
        cursor_value gis f kf = k \<and> cursor_value gis f ''ROAD_TYPE'' = Str v]
      = sum_list [feature_length gis f. f \<leftarrow> ?A, cursor_value gis f kf = k]"
    by (rule sum_filter_cong) (simp add: overlay_keeps_road_type)
  have Bv: "sum_list [feature_length gis f. f \<leftarrow> ?B,
        cursor_value gis f kf = k \<and> cursor_value gis f ''ROAD_TYPE'' = Str v] = 0"
    by (rule sum_filter_none) (use assms in \<open>simp add: overlay_keeps_road_type\<close>)
  have Bu: "sum_list [feature_length gis f. f \<leftarrow> ?B,
        cursor_value gis f kf = k \<and> cursor_value gis f ''ROAD_TYPE'' = Str u]
      = sum_list [feature_length gis f. f \<leftarrow> ?B, cursor_value gis f kf = k]"
    by (rule sum_filter_cong) (simp add: overlay_keeps_road_type)
  have Au: "sum_list [feature_length gis f. f \<leftarrow> ?A,
        cursor_value gis f kf = k \<and> cursor_value gis f ''ROAD_TYPE'' = Str u] = 0"
    by (rule sum_filter_none) (use assms in \<open>simp add: overlay_keeps_road_type\<close>)
  show "sum_list [feature_length gis f.
            f \<leftarrow> intersect_rows gis (intersect_rows gis (tagged v as @ tagged u bs) buffer) sheds,
            cursor_value gis f kf = k \<and> cursor_value gis f ''ROAD_TYPE'' = Str v]
         = overlay_length gis (tagged v as) buffer sheds kf k"
    unfolding split sum_filter_append Av Bv overlay_length_def by simp
  show "sum_list [feature_length gis f.
            f \<leftarrow> intersect_rows gis (intersect_rows gis (tagged v as @ tagged u bs) buffer) sheds,
            cursor_value gis f kf = k \<and> cursor_value gis f ''ROAD_TYPE'' = Str u]
         = overlay_length gis (tagged u bs) buffer sheds kf k"
    unfolding split sum_filter_append Au Bu overlay_length_def by simp
qed

lemma spatial_world_datasets:
  "dataset (spatial_world gis ws d streams sheds roads proposed w)
       (os_path_join ws ''intersected_roads_watershed'')
     = Some \<lparr>schema = merge_fields (merge_fields (merge_fields
                 (schema (add_field (road_type_field ''Pre-Development'') roads))
                 (schema (add_field (road_type_field ''Proposed'') proposed))) []) (schema sheds),
             rows = intersect_rows gis (intersect_rows gis
                 (tagged ''Pre-Development'' (rows roads) @ tagged ''Proposed'' (rows proposed))
                 (buffer_rows gis d (selected_streams gis streams sheds))) (rows sheds)\<rparr>"
  "dataset (spatial_world gis ws d streams sheds roads proposed w) (os_path_join ws ''original_roads'')
     = Some \<lparr>schema = schema (add_field (road_type_field ''Pre-Development'') roads),
             rows = tagged ''Pre-Development'' (rows roads)\<rparr>"
  "dataset (spatial_world gis ws d streams sheds roads proposed w) (os_path_join ws ''proposed_roads'')
     = Some \<lparr>schema = schema (add_field (road_type_field ''Proposed'') proposed),
             rows = tagged ''Proposed'' (rows proposed)\<rparr>"
  "dataset (spatial_world gis ws d streams sheds roads proposed w) (os_path_join ws ''stream_buffer'')
     = Some \<lparr>schema = [], rows = buffer_rows gis d (selected_streams gis streams sheds)\<rparr>"
  by (simp_all add: spatial_world_def Let_def dataset_store)

lemma spatial_world_untouched:
  assumes "p \<notin> set (intermediate ws)"
  shows "dataset (spatial_world gis ws d streams sheds roads proposed w) p = dataset w p"
  using apart_simps [OF assms] by (simp add: spatial_world_def Let_def dataset_store)

lemma tagged_attr:
  "f \<in> set (tagged v fs) \<Longrightarrow> attr_of f ''ROAD_TYPE'' = Str v"
  by (simp add: attr_of_def tagged_road_type)


subsection \<open>Where the parts of a road lie\<close>

lemma intersect_rows_mem:
  "f \<in> set (intersect_rows gis as bs) \<longleftrightarrow> (\<exists>a\<in>set as. \<exists>b\<in>set bs. f \<in> set (overlay gis a b))"
  by (auto simp: intersect_rows_def)

lemma overlay_within:
  assumes "point_set_engine gis pts" and "f \<in> set (overlay gis a b)"
  shows "attrs f = attrs a @ attrs b" and "shape_within pts f a" and "shape_within pts f b"
proof -
  from assms(2) obtain ga where ga: "shape a = Some ga"
    by (cases "shape a") (simp_all add: overlay_def)
  from assms(2) ga obtain gb where gb: "shape b = Some gb"
    by (cases "shape b") (simp_all add: overlay_def)
  from assms(2) ga gb obtain p where p: "p \<in> set (g_intersect gis ga gb)"
    and f: "f = \<lparr>attrs = attrs a @ attrs b, shape = Some p\<rparr>"
    by (auto simp: overlay_def)
  note s = ga gb
  from assms(1) p have "pts p \<subseteq> pts ga \<inter> pts gb"
    unfolding point_set_engine_def by blast
  with s f show "attrs f = attrs a @ attrs b" "shape_within pts f a" "shape_within pts f b"
    by (simp_all add: shape_within_def)
qed

lemma shape_within_trans:
  "shape_within pts f g \<Longrightarrow> shape_within pts g h \<Longrightarrow> shape_within pts f h"
  by (auto simp: shape_within_def split: option.splits)

lemma overlay_apart:
  assumes "point_set_engine gis pts" and "\<not> shape_meets pts a b"
  shows "overlay gis a b = []"
proof (cases "shape a")
  case None
  then show ?thesis by (simp add: overlay_def)
next
  case a: (Some ga)
  show ?thesis
  proof (cases "shape b")
    case None
    with a show ?thesis by (simp add: overlay_def)
  next
    case (Some gb)
    with a assms(2) have "pts ga \<inter> pts gb = {}" by (simp add: shape_meets_def)
    with assms(1) have "g_intersect gis ga gb = []"
      unfolding point_set_engine_def by blast
    with a Some show ?thesis by (simp add: overlay_def)
  qed
qed

lemma intersect_rows_filter:
  assumes "\<And>r b. r \<in> set as \<Longrightarrow> \<not> P r \<Longrightarrow> b \<in> set bs \<Longrightarrow> overlay gis r b = []"
  shows "intersect_rows gis (filter P as) bs = intersect_rows gis as bs"
  using assms
proof (induction as)
  case Nil
  then show ?case by simp
next
  case (Cons r as)
  have rest: "intersect_rows gis (filter P as) bs = intersect_rows gis as bs"
    by (rule Cons.IH) (simp add: Cons.prems)
  show ?case
  proof (cases "P r")
    case True
    then show ?thesis
      using rest by (simp add: intersect_rows_Cons [of gis r "filter P as"]
          intersect_rows_Cons [of gis r as])
  next
    case False
    then have "\<And>b. b \<in> set bs \<Longrightarrow> overlay gis r b = []"
      by (simp add: Cons.prems)
    then have "intersect_rows gis [r] bs = []"
      by (simp add: intersect_rows_def)
    with False rest show ?thesis
      by (simp add: intersect_rows_Cons [of gis r as])
  qed
qed

lemma selected_streams_meet:
  assumes "point_set_engine gis pts"
  shows "selected_streams gis streams sheds
       = filter (\<lambda>s. \<exists>p\<in>set (rows sheds). shape_meets pts s p) (rows streams)"
proof -
  from assms have "shapes_intersect gis s p = shape_meets pts s p" for s p
    by (simp add: shapes_intersect_def shape_meets_def point_set_engine_def split: option.splits)
  then show ?thesis by (simp add: selected_streams_def list_ex_iff)
qed

text \<open>
  Claim C2. The geometry engine is taken to select, to cut and to discard by the points
  that geometries cover (\<open>point_set_engine\<close>). With its inputs in place,
  \<open>run_spatial_analysis\<close> then returns, and: the buffer dataset it writes is the one
  dissolved buffer, at the distance \<open>in_distance\<close>, of exactly the streams that share a
  point with a watershed; the result is the combined road network intersected with that
  buffer and then with the watersheds; every row of the result is a part of a road that
  lies within that road, within the buffer and within a watershed, and carries the
  attributes of the three, so that the length read from it is length inside the buffer
  only; and the result is the one that the roads that meet the buffer give alone, as is
  the length recorded in it for every watershed key and each of the two road types, so
  that a road outside the buffer adds no row and no length to any watershed.
\<close>

theorem only_road_length_inside_buffer_counts:
  assumes "dict_get (config self) ''workspace'' = Inr ws"
    and "value_of self ''in_streams'' = Inr in_streams"
    and "value_of self ''in_watershed'' = Inr in_watershed"
    and "value_of self ''in_distance'' = Inr distance"
    and "value_of self ''in_roads'' = Inr in_roads"
    and "value_of self ''in_proposed_roads'' = Inr in_proposed_roads"
    and "dataset w in_streams = Some streams"
    and "dataset w in_watershed = Some sheds"
    and "dataset w in_roads = Some roads"
    and "dataset w in_proposed_roads = Some proposed"
    and "in_roads \<notin> set (intermediate ws)"
    and "in_proposed_roads \<notin> set (intermediate ws)"
    and "in_watershed \<notin> set (intermediate ws)"
    and "point_set_engine gis pts"
    and "network = tagged ''Pre-Development'' (rows roads) @ tagged ''Proposed'' (rows proposed)"
  shows "\<exists>w' buffer result.
       run_spatial_analysis self gis w
         = (Inr (os_path_join ws ''intersected_roads_watershed''), w')
     \<and> buffer = buffer_rows gis distance
         (filter (\<lambda>s. \<exists>p\<in>set (rows sheds). shape_meets pts s p) (rows streams))
     \<and> dataset w' (os_path_join ws ''stream_buffer'') = Some \<lparr>schema = [], rows = buffer\<rparr>
     \<and> dataset w' (os_path_join ws ''intersected_roads_watershed'') = Some result
     \<and> rows result = intersect_rows gis (intersect_rows gis network buffer) (rows sheds)
     \<and> (\<forall>f\<in>set (rows result). \<exists>r\<in>set network. \<exists>b\<in>set buffer. \<exists>s\<in>set (rows sheds).
           attrs f = (attrs r @ attrs b) @ attrs s
         \<and> shape_within pts f r \<and> shape_within pts f b \<and> shape_within pts f s)
     \<and> rows result = intersect_rows gis (intersect_rows gis
           (filter (\<lambda>r. \<exists>b\<in>set buffer. shape_meets pts r b) network) buffer) (rows sheds)
     \<and> (\<forall>key_field k.
           road_length gis result key_field k ''Pre-Development''
             = overlay_length gis (filter (\<lambda>r. \<exists>b\<in>set buffer. shape_meets pts r b)
                 (tagged ''Pre-Development'' (rows roads))) buffer (rows sheds) key_field k
         \<and> road_length gis result key_field k ''Proposed''
             = overlay_length gis (filter (\<lambda>r. \<exists>b\<in>set buffer. shape_meets pts r b)
                 (tagged ''Proposed'' (rows proposed))) buffer (rows sheds) key_field k)"
proof -
  define buffer where "buffer = buffer_rows gis distance
      (filter (\<lambda>s. \<exists>p\<in>set (rows sheds). shape_meets pts s p) (rows streams))"
  have sel: "buffer_rows gis distance (selected_streams gis streams sheds) = buffer"
    by (simp only: buffer_def selected_streams_meet [OF assms(14)])
  let ?w' = "spatial_world gis ws distance streams sheds roads proposed w"
  let ?result = "\<lparr>schema = merge_fields (merge_fields (merge_fields
                 (schema (add_field (road_type_field ''Pre-Development'') roads))
                 (schema (add_field (road_type_field ''Proposed'') proposed))) []) (schema sheds),
             rows = intersect_rows gis (intersect_rows gis network buffer) (rows sheds)\<rparr>"
  have run: "run_spatial_analysis self gis w
           = (Inr (os_path_join ws ''intersected_roads_watershed''), ?w')"
    by (rule run_spatial_analysis_run [OF assms(1-13)])
  have b: "dataset ?w' (os_path_join ws ''stream_buffer'') = Some \<lparr>schema = [], rows = buffer\<rparr>"
    by (simp only: spatial_world_datasets sel)
  have r: "dataset ?w' (os_path_join ws ''intersected_roads_watershed'') = Some ?result"
    by (simp only: spatial_world_datasets sel assms(15))
  have d: "rows ?result = intersect_rows gis (intersect_rows gis network buffer) (rows sheds)"
    by simp
  have inside: "\<forall>f\<in>set (rows ?result). \<exists>r\<in>set network. \<exists>b\<in>set buffer. \<exists>s\<in>set (rows sheds).
           attrs f = (attrs r @ attrs b) @ attrs s
         \<and> shape_within pts f r \<and> shape_within pts f b \<and> shape_within pts f s"
  proof
    fix f
    assume "f \<in> set (rows ?result)"
    then have "f \<in> set (intersect_rows gis (intersect_rows gis network buffer) (rows sheds))"
      by simp
    then obtain i s where i: "i \<in> set (intersect_rows gis network buffer)"
      and s: "s \<in> set (rows sheds)" and f: "f \<in> set (overlay gis i s)"
      using intersect_rows_mem [of f gis "intersect_rows gis network buffer" "rows sheds"]
      by blast
    from i obtain r b where rb: "r \<in> set network" "b \<in> set buffer"
      and i': "i \<in> set (overlay gis r b)"
      using intersect_rows_mem [of i gis network buffer] by blast
    note fi = overlay_within [OF assms(14) f]
    note ir = overlay_within [OF assms(14) i']
    from fi(1) ir(1) have "attrs f = (attrs r @ attrs b) @ attrs s" by simp
    moreover from fi(2) ir(2) have "shape_within pts f r" by (rule shape_within_trans)
    moreover from fi(2) ir(3) have "shape_within pts f b" by (rule shape_within_trans)
    ultimately show "\<exists>r\<in>set network. \<exists>b\<in>set buffer. \<exists>s\<in>set (rows sheds).
           attrs f = (attrs r @ attrs b) @ attrs s
         \<and> shape_within pts f r \<and> shape_within pts f b \<and> shape_within pts f s"
      using rb s fi(3) by blast
  qed
  have "intersect_rows gis (filter (\<lambda>r. \<exists>b\<in>set buffer. shape_meets pts r b) network) buffer
      = intersect_rows gis network buffer"
    by (rule intersect_rows_filter) (auto intro: overlay_apart [OF assms(14)])
  then have e: "rows ?result = intersect_rows gis (intersect_rows gis
           (filter (\<lambda>r. \<exists>b\<in>set buffer. shape_meets pts r b) network) buffer) (rows sheds)"
    by simp
  have meet: "intersect_rows gis (filter (\<lambda>r. \<exists>b\<in>set buffer. shape_meets pts r b) rs) buffer
      = intersect_rows gis rs buffer" for rs
    by (rule intersect_rows_filter) (auto intro: overlay_apart [OF assms(14)])
  have totals: "\<forall>key_field k.
           road_length gis ?result key_field k ''Pre-Development''
             = overlay_length gis (filter (\<lambda>r. \<exists>b\<in>set buffer. shape_meets pts r b)
                 (tagged ''Pre-Development'' (rows roads))) buffer (rows sheds) key_field k
         \<and> road_length gis ?result key_field k ''Proposed''
             = overlay_length gis (filter (\<lambda>r. \<exists>b\<in>set buffer. shape_meets pts r b)
                 (tagged ''Proposed'' (rows proposed))) buffer (rows sheds) key_field k"
    unfolding road_length_rows assms(15)
    by (simp add: road_length_of_network overlay_length_def meet)
  show ?thesis
    using run buffer_def b r d inside e totals by (intro exI conjI)
qed

lemma example_inputs:
  "dict_get (config example_tool) ''workspace'' = Inr ''tmp''"
  "value_of example_tool ''in_streams'' = Inr ''streams''"
  "value_of example_tool ''in_watershed'' = Inr ''sheds''"
  "value_of example_tool ''in_distance'' = Inr ''1 Meters''"
  "value_of example_tool ''in_roads'' = Inr ''roads''"
  "value_of example_tool ''in_proposed_roads'' = Inr ''new''"
  "dataset example_world ''streams'' = Some example_streams"
  "dataset example_world ''sheds'' = Some example_sheds"
  "dataset example_world ''roads'' = Some example_roads"
  "dataset example_world ''new'' = Some example_new"
  "''roads'' \<notin> set (intermediate ''tmp'')"
  "''new'' \<notin> set (intermediate ''tmp'')"
  "''sheds'' \<notin> set (intermediate ''tmp'')"
  by (simp_all add: dict_get_def value_of_def get_param_by_name_def example_tool_def
      dataset_def example_world_def intermediate_def os_path_join_def is_sep_def)

lemma example_buffer_eq:
  "example_buffer = buffer_rows example_gis ''1 Meters''
     (selected_streams example_gis example_streams example_sheds)"
  by (simp add: example_buffer_def buffer_rows_def selected_streams_def example_streams_def
      example_sheds_def example_gis_def shapes_intersect_def)

lemma example_overlay_rows:
  "intersect_rows example_gis (intersect_rows example_gis
      (tagged ''Pre-Development'' (rows example_roads) @ tagged ''Proposed'' (rows example_new))
      example_buffer) (rows example_sheds) = rows example_overlay"
  by (simp add: intersect_rows_def overlay_def tagged_def set_field_def example_roads_def
      example_new_def example_buffer_def example_sheds_def example_overlay_def example_gis_def)


lemma example_point_set_engine: "point_set_engine example_gis set"
  by (auto simp: point_set_engine_def example_gis_def list_ex_iff filter_empty_conv)

lemma example_selected_streams:
  "filter (\<lambda>s. \<exists>p\<in>set (rows example_sheds). shape_meets set s p) (rows example_streams)
     = [\<lparr>attrs = [], shape = Some [5]\<rparr>]"
  by (simp add: example_sheds_def example_streams_def shape_meets_def)

lemma example_stream_buffer:
  "buffer_rows example_gis ''1 Meters'' [\<lparr>attrs = [], shape = Some [5]\<rparr>] = example_buffer"
  by (simp add: buffer_rows_def example_gis_def example_buffer_def)

lemma example_roads_at_buffer:
  "filter (\<lambda>r. \<exists>b\<in>set example_buffer. shape_meets set r b)
      (tagged ''Pre-Development'' (rows example_roads) @ tagged ''Proposed'' (rows example_new))
     = [\<lparr>attrs = [(''ROAD_TYPE'', Str ''Pre-Development'')], shape = Some [3, 4, 5, 20]\<rparr>,
        \<lparr>attrs = [(''ROAD_TYPE'', Str ''Proposed'')], shape = Some [6, 30]\<rparr>]"
  by (simp add: example_buffer_def example_roads_def example_new_def tagged_def set_field_def
      shape_meets_def)

lemma example_far_road_in_network:
  "tagged ''Pre-Development'' (rows example_roads)
     = [\<lparr>attrs = [(''ROAD_TYPE'', Str ''Pre-Development'')], shape = Some [3, 4, 5, 20]\<rparr>,
        example_far_road]"
  by (simp add: example_roads_def example_far_road_def tagged_def set_field_def)

lemma example_all_streams_buffer:
  "buffer_rows example_gis ''1 Meters'' (rows example_streams)
     = [\<lparr>attrs = [], shape = Some [4, 5, 6, 9, 10, 11]\<rparr>]"
  by (simp add: buffer_rows_def example_gis_def example_streams_def)

lemma example_overlay_length:
  "road_length example_gis example_overlay ''WS'' (Str ''A'') ''Pre-Development'' = 2000"
  by (simp add: road_length_def example_overlay_def cursor_value_def attr_of_def
      feature_length_def example_gis_def)

theorem only_road_length_inside_buffer_counts_witness:
  "point_set_engine example_gis set
   \<and> filter (\<lambda>s. \<exists>p\<in>set (rows example_sheds). shape_meets set s p) (rows example_streams)
       = [\<lparr>attrs = [], shape = Some [5]\<rparr>]
   \<and> (\<exists>w' result.
         run_spatial_analysis example_tool example_gis example_world
           = (Inr (os_path_join ''tmp'' ''intersected_roads_watershed''), w')
       \<and> dataset w' (os_path_join ''tmp'' ''stream_buffer'')
           = Some \<lparr>schema = [], rows = example_buffer\<rparr>
       \<and> dataset w' (os_path_join ''tmp'' ''intersected_roads_watershed'') = Some result
       \<and> rows result = rows example_overlay)
   \<and> buffer_rows example_gis ''1 Meters'' (rows example_streams)
       = [\<lparr>attrs = [], shape = Some [4, 5, 6, 9, 10, 11]\<rparr>]
   \<and> tagged ''Pre-Development'' (rows example_roads)
       = [\<lparr>attrs = [(''ROAD_TYPE'', Str ''Pre-Development'')], shape = Some [3, 4, 5, 20]\<rparr>,
          example_far_road]
   \<and> filter (\<lambda>r. \<exists>b\<in>set example_buffer. shape_meets set r b)
        (tagged ''Pre-Development'' (rows example_roads) @ tagged ''Proposed'' (rows example_new))
       = [\<lparr>attrs = [(''ROAD_TYPE'', Str ''Pre-Development'')], shape = Some [3, 4, 5, 20]\<rparr>,
          \<lparr>attrs = [(''ROAD_TYPE'', Str ''Proposed'')], shape = Some [6, 30]\<rparr>]
   \<and> road_length example_gis example_overlay ''WS'' (Str ''A'') ''Pre-Development'' = 2000"
proof -
  note main = only_road_length_inside_buffer_counts
    [OF example_inputs example_point_set_engine refl]
  from main obtain w' buffer result where
    run: "run_spatial_analysis example_tool example_gis example_world
           = (Inr (os_path_join ''tmp'' ''intersected_roads_watershed''), w')"
    and buf: "buffer = buffer_rows example_gis ''1 Meters''
         (filter (\<lambda>s. \<exists>p\<in>set (rows example_sheds). shape_meets set s p) (rows example_streams))"
    and b: "dataset w' (os_path_join ''tmp'' ''stream_buffer'') = Some \<lparr>schema = [], rows = buffer\<rparr>"
    and res: "dataset w' (os_path_join ''tmp'' ''intersected_roads_watershed'') = Some result"
    and rws: "rows result = intersect_rows example_gis (intersect_rows example_gis
      (tagged ''Pre-Development'' (rows example_roads) @ tagged ''Proposed'' (rows example_new))
      buffer) (rows example_sheds)"
    by (elim exE conjE)
  from buf have buffer: "buffer = example_buffer"
    by (simp only: example_selected_streams example_stream_buffer)
  from rws have rows': "rows result = rows example_overlay"
    by (simp only: buffer example_overlay_rows)
  from b have b': "dataset w' (os_path_join ''tmp'' ''stream_buffer'')
           = Some \<lparr>schema = [], rows = example_buffer\<rparr>"
    by (simp only: buffer)
  from run b' res rows' have ex: "\<exists>w' result.
         run_spatial_analysis example_tool example_gis example_world
           = (Inr (os_path_join ''tmp'' ''intersected_roads_watershed''), w')
       \<and> dataset w' (os_path_join ''tmp'' ''stream_buffer'')
           = Some \<lparr>schema = [], rows = example_buffer\<rparr>
       \<and> dataset w' (os_path_join ''tmp'' ''intersected_roads_watershed'') = Some result
       \<and> rows result = rows example_overlay"
    by (intro exI conjI)
  show ?thesis
    by (intro conjI) (rule example_point_set_engine example_selected_streams ex
        example_all_streams_buffer example_far_road_in_network example_roads_at_buffer example_overlay_length)+
qed

lemma add_constant_field_sets_every_row:
  assumes "add_constant_field p n v w = (Inr u, w')"
  shows "\<exists>t. dataset w' p = Some t \<and> (\<forall>f\<in>set (rows t). attr_of f n = Str v)"
proof -
  have upd: "\<forall>f\<in>set (update_all n (Str v) fs). attr_of f n = Str v" for fs :: "'a feature list"
    by (induction fs) (simp_all add: set_field_def attr_of_def map_of_dict_set)
  from assms show ?thesis
    by (auto simp: add_constant_field_def AddField_management_def bindE_def open_dataset_def
        reading_def modify_def raise_def dataset_store upd
        split: option.splits if_splits prod.splits sum.splits)
qed

text \<open>
  Claim C5. Every feature copied from the existing roads gets \<open>ROAD_TYPE\<close>
  \<^verbatim>\<open>Pre-Development\<close> and every feature copied from the proposed roads gets \<^verbatim>\<open>Proposed\<close>
  (\<open>add_constant_field\<close> sets the field on every row of its table); in the summary, the
  column \<^verbatim>\<open>Pre-Development\<close> of a watershed is the length of the parts of the existing roads
  alone and the column \<^verbatim>\<open>Proposed\<close> that of the proposed roads alone, so no length of
  one network is counted under the other.
\<close>

theorem road_types_counted_apart:
  fixes w :: "'g world"
  assumes "dict_get (config self) ''workspace'' = Inr ws"
    and "value_of self ''in_streams'' = Inr in_streams"
    and "value_of self ''in_watershed'' = Inr in_watershed"
    and "value_of self ''in_distance'' = Inr distance"
    and "value_of self ''in_roads'' = Inr in_roads"
    and "value_of self ''in_proposed_roads'' = Inr in_proposed_roads"
    and "dataset w in_streams = Some streams"
    and "dataset w in_watershed = Some sheds"
    and "dataset w in_roads = Some roads"
    and "dataset w in_proposed_roads = Some proposed"
    and "in_roads \<notin> set (intermediate ws)"
    and "in_proposed_roads \<notin> set (intermediate ws)"
    and "in_watershed \<notin> set (intermediate ws)"
    and "buffer = buffer_rows gis distance (selected_streams gis streams sheds)"
    and "value_of self ''in_watershed_id'' = Inr key_field"
    and "run_spatial_analysis self gis w = (Inr spatial_result, w')"
    and "run_summary_analysis self gis w' spatial_result = Inr newdf"
    and "row \<in> set newdf"
  shows "(\<exists>t. dataset w' (os_path_join ws ''original_roads'') = Some t
            \<and> rows t = map (set_field ''ROAD_TYPE'' (Str ''Pre-Development'')) (rows roads)
            \<and> (\<forall>f\<in>set (rows t). attr_of f ''ROAD_TYPE'' = Str ''Pre-Development''))
    \<and> (\<exists>t. dataset w' (os_path_join ws ''proposed_roads'') = Some t
            \<and> rows t = map (set_field ''ROAD_TYPE'' (Str ''Proposed'')) (rows proposed)
            \<and> (\<forall>f\<in>set (rows t). attr_of f ''ROAD_TYPE'' = Str ''Proposed''))
    \<and> Pre_Development row
        = overlay_length gis (map (set_field ''ROAD_TYPE'' (Str ''Pre-Development'')) (rows roads))
            buffer (rows sheds) key_field (key row)
    \<and> Proposed row
        = overlay_length gis (map (set_field ''ROAD_TYPE'' (Str ''Proposed'')) (rows proposed))
            buffer (rows sheds) key_field (key row)
    \<and> (\<forall>p n v (w0 :: 'g world) u w1. add_constant_field p n v w0 = (Inr u, w1) \<longrightarrow>
          (\<exists>t. dataset w1 p = Some t \<and> (\<forall>f\<in>set (rows t). attr_of f n = Str v)))"
proof -
  let ?w' = "spatial_world gis ws distance streams sheds roads proposed w"
  let ?sp = "os_path_join ws ''intersected_roads_watershed''"
  let ?A = "tagged ''Pre-Development'' (rows roads)"
  let ?B = "tagged ''Proposed'' (rows proposed)"
  let ?sr = "\<lparr>schema = merge_fields (merge_fields (merge_fields
                 (schema (add_field (road_type_field ''Pre-Development'') roads))
                 (schema (add_field (road_type_field ''Proposed'') proposed))) []) (schema sheds),
             rows = intersect_rows gis (intersect_rows gis (?A @ ?B) buffer) (rows sheds)\<rparr>"
  have "run_spatial_analysis self gis w = (Inr ?sp, ?w')"
    by (rule run_spatial_analysis_run [OF assms(1-13)])
  with assms(16) have sp: "spatial_result = ?sp" and w': "w' = ?w'" by simp_all
  have sr: "dataset w' spatial_result = Some ?sr"
    by (simp add: sp w' spatial_world_datasets assms(14))
  have ws: "dataset w' in_watershed = Some sheds"
    by (simp add: w' spatial_world_untouched [OF assms(13)] assms(8))
  from summary_row_calculate [OF assms(17) assms(15) sr assms(3) ws assms(18)]
  have row: "row = calculate (key row) (polygon_area gis sheds key_field (key row))
                 (road_length gis ?sr key_field (key row) ''Pre-Development'')
                 (road_length gis ?sr key_field (key row) ''Proposed'')"
    by simp
  have ne: "''Pre-Development'' \<noteq> ''Proposed''" by simp
  have pre: "road_length gis ?sr key_field (key row) ''Pre-Development''
      = overlay_length gis ?A buffer (rows sheds) key_field (key row)"
    unfolding road_length_rows by (rule road_length_of_network(1) [OF ne])
  have prp: "road_length gis ?sr key_field (key row) ''Proposed''
      = overlay_length gis ?B buffer (rows sheds) key_field (key row)"
    unfolding road_length_rows by (rule road_length_of_network(2) [OF ne])
  have c1: "Pre_Development row = overlay_length gis ?A buffer (rows sheds) key_field (key row)"
    by (subst row) (simp add: calculate_def Let_def pre)
  have c2: "Proposed row = overlay_length gis ?B buffer (rows sheds) key_field (key row)"
    by (subst row) (simp add: calculate_def Let_def prp)
  have o: "\<exists>t. dataset w' (os_path_join ws ''original_roads'') = Some t
            \<and> rows t = ?A \<and> (\<forall>f\<in>set (rows t). attr_of f ''ROAD_TYPE'' = Str ''Pre-Development'')"
    by (simp add: w' spatial_world_datasets tagged_attr)
  have p: "\<exists>t. dataset w' (os_path_join ws ''proposed_roads'') = Some t
            \<and> rows t = ?B \<and> (\<forall>f\<in>set (rows t). attr_of f ''ROAD_TYPE'' = Str ''Proposed'')"
    by (simp add: w' spatial_world_datasets tagged_attr)
  have g: "\<forall>p n v (w0 :: 'g world) u w1. add_constant_field p n v w0 = (Inr u, w1) \<longrightarrow>
          (\<exists>t. dataset w1 p = Some t \<and> (\<forall>f\<in>set (rows t). attr_of f n = Str v))"
    using add_constant_field_sets_every_row by blast
  from o p c1 c2 g show ?thesis unfolding tagged_def by (intro conjI)
qed

lemma example_spatial_run:
  "run_spatial_analysis example_tool example_gis example_world
     = (Inr (os_path_join ''tmp'' ''intersected_roads_watershed''),
        spatial_world example_gis ''tmp'' ''1 Meters'' example_streams example_sheds example_roads
          example_new example_world)"
  by (rule run_spatial_analysis_run [OF example_inputs])

lemma example_key: "value_of example_tool ''in_watershed_id'' = Inr ''WS''"
  by (simp add: value_of_def get_param_by_name_def example_tool_def)

lemma example_pipeline_summary:
  "run_summary_analysis example_tool example_gis
     (spatial_world example_gis ''tmp'' ''1 Meters'' example_streams example_sheds example_roads
          example_new example_world)
     (os_path_join ''tmp'' ''intersected_roads_watershed'')
   = Inr [calculate (Str ''A'') 10000000 2000 1000]"
proof -
  define W where "W = spatial_world example_gis ''tmp'' ''1 Meters'' example_streams example_sheds
      example_roads example_new example_world"
  define sp where "sp = os_path_join ''tmp'' ''intersected_roads_watershed''"
  have sheds: "dataset W ''sheds'' = Some example_sheds"
    unfolding W_def
    by (simp only: spatial_world_untouched [OF example_inputs(13)] example_inputs)
  have sr: "dataset W sp
    = Some \<lparr>schema = merge_fields (merge_fields (merge_fields
                 (schema (add_field (road_type_field ''Pre-Development'') example_roads))
                 (schema (add_field (road_type_field ''Proposed'') example_new))) [])
                 (schema example_sheds),
             rows = rows example_overlay\<rparr>"
    unfolding W_def sp_def
    by (simp only: spatial_world_datasets example_buffer_eq [symmetric] example_overlay_rows)
  have "run_summary_analysis example_tool example_gis W sp
      = Inr [calculate (Str ''A'') 10000000 2000 1000]"
    by (simp add: run_summary_analysis_def bindS_def example_inputs example_key sheds sr
      table_to_dataframe_def SearchCursor_def
      readable_def is_token_def field_names_def merge_fields_def add_field_def road_type_field_def
      example_roads_def example_new_def example_sheds_def example_overlay_def text_field_def
      example_gis_def cursor_value_def attr_of_def pivot_table_def road_rows_def sorted_keys_def
      sort_by_def agg_sum_def fillna0_def groupby_sum_def area_rows_def merge_outer_def
      column_def Let_def)
  then show ?thesis by (simp only: W_def sp_def)
qed

lemma example_overlay_lengths:
  "overlay_length example_gis (map (set_field ''ROAD_TYPE'' (Str ''Pre-Development''))
       (rows example_roads)) example_buffer (rows example_sheds) ''WS'' (Str ''A'') = 2000"
  "overlay_length example_gis (map (set_field ''ROAD_TYPE'' (Str ''Proposed''))
       (rows example_new)) example_buffer (rows example_sheds) ''WS'' (Str ''A'') = 1000"
  by (simp_all add: overlay_length_def intersect_rows_def overlay_def set_field_def
      example_roads_def example_new_def example_buffer_def example_sheds_def example_gis_def
      feature_length_def cursor_value_def attr_of_def)

theorem road_types_counted_apart_witness:
  "run_spatial_analysis example_tool example_gis example_world
     = (Inr (os_path_join ''tmp'' ''intersected_roads_watershed''),
        spatial_world example_gis ''tmp'' ''1 Meters'' example_streams example_sheds example_roads
          example_new example_world)
   \<and> run_summary_analysis example_tool example_gis
       (spatial_world example_gis ''tmp'' ''1 Meters'' example_streams example_sheds example_roads
          example_new example_world)
       (os_path_join ''tmp'' ''intersected_roads_watershed'')
     = Inr [calculate (Str ''A'') 10000000 2000 1000]
   \<and> Pre_Development (calculate (Str ''A'') 10000000 2000 1000) = 2000
   \<and> Proposed (calculate (Str ''A'') 10000000 2000 1000) = 1000
   \<and> (\<exists>t. dataset (spatial_world example_gis ''tmp'' ''1 Meters'' example_streams example_sheds
              example_roads example_new example_world) (os_path_join ''tmp'' ''original_roads'')
            = Some t
          \<and> map (\<lambda>f. attr_of f ''ROAD_TYPE'') (rows t)
              = [Str ''Pre-Development'', Str ''Pre-Development''])"
proof -
  let ?row = "calculate (Str ''A'') 10000000 2000 1000"
  have m: "?row \<in> set [?row]" by simp
  have k: "key ?row = Str ''A''" by (simp add: calculate_def Let_def)
  note main = road_types_counted_apart [OF example_inputs example_buffer_eq example_key
      example_spatial_run example_pipeline_summary m]
  from main have "Pre_Development ?row
        = overlay_length example_gis (map (set_field ''ROAD_TYPE'' (Str ''Pre-Development''))
            (rows example_roads)) example_buffer (rows example_sheds) ''WS'' (key ?row)"
    by (elim conjE)
  then have p: "Pre_Development ?row = 2000" by (simp only: k example_overlay_lengths)
  from main have "Proposed ?row
        = overlay_length example_gis (map (set_field ''ROAD_TYPE'' (Str ''Proposed''))
            (rows example_new)) example_buffer (rows example_sheds) ''WS'' (key ?row)"
    by (elim conjE)
  then have q: "Proposed ?row = 1000" by (simp only: k example_overlay_lengths)
  from main have "\<exists>t. dataset (spatial_world example_gis ''tmp'' ''1 Meters''
              example_streams example_sheds example_roads example_new example_world)
              (os_path_join ''tmp'' ''original_roads'') = Some t
      \<and> rows t = map (set_field ''ROAD_TYPE'' (Str ''Pre-Development'')) (rows example_roads)
      \<and> (\<forall>f\<in>set (rows t). attr_of f ''ROAD_TYPE'' = Str ''Pre-Development'')"
    by (rule conjunct1)
  then obtain t where t1: "dataset (spatial_world example_gis ''tmp'' ''1 Meters''
              example_streams example_sheds example_roads example_new example_world)
              (os_path_join ''tmp'' ''original_roads'') = Some t"
    and t2: "rows t = map (set_field ''ROAD_TYPE'' (Str ''Pre-Development'')) (rows example_roads)"
    by (elim exE conjE)
  from t2 have "map (\<lambda>f. attr_of f ''ROAD_TYPE'') (rows t)
              = [Str ''Pre-Development'', Str ''Pre-Development'']"
    by (simp add: example_roads_def set_field_def attr_of_def)
  with t1 have t: "\<exists>t. dataset (spatial_world example_gis ''tmp'' ''1 Meters'' example_streams
              example_sheds example_roads example_new example_world)
              (os_path_join ''tmp'' ''original_roads'') = Some t
          \<and> map (\<lambda>f. attr_of f ''ROAD_TYPE'') (rows t)
              = [Str ''Pre-Development'', Str ''Pre-Development'']"
    by (intro exI conjI)
  show ?thesis by (intro conjI) (rule example_spatial_run example_pipeline_summary p q t)+
qed


section \<open>The order of the stages\<close>

definition keeps :: "('s \<Rightarrow> 'b) \<Rightarrow> ('a, 's) prog \<Rightarrow> bool" where
  "keeps sel m \<longleftrightarrow> (\<forall>s. sel (snd (m s)) = sel s)"

lemma keeps_ret: "keeps sel (ret a)"
  by (simp add: keeps_def ret_def)

lemma keeps_raise: "keeps sel (raise e)"
  by (simp add: keeps_def raise_def)

lemma keeps_liftE: "keeps sel (liftE r)"
  by (simp add: keeps_def liftE_def)

lemma keeps_reading: "keeps sel (reading f)"
  by (simp add: keeps_def reading_def)

lemma keeps_modify: "(\<And>s. sel (f s) = sel s) \<Longrightarrow> keeps sel (modify f)"
  by (simp add: keeps_def modify_def)

lemma keeps_bindE: "keeps sel m \<Longrightarrow> (\<And>a. keeps sel (f a)) \<Longrightarrow> keeps sel (bindE m f)"
  by (auto simp: keeps_def bindE_def split: prod.splits sum.splits) (metis snd_conv)+

lemma keeps_if: "keeps sel m \<Longrightarrow> keeps sel n \<Longrightarrow> keeps sel (if c then m else n)"
  by simp

lemma keeps_cond: "(\<And>s. keeps sel (if c s then m else n)) \<Longrightarrow> keeps sel (\<lambda>s. (if c s then m else n) s)"
  by (simp add: keeps_def)

lemmas keeps_intros = keeps_ret keeps_raise keeps_liftE keeps_reading keeps_bindE keeps_if

text \<open>A selection of the state that does not look at one of its fields.\<close>

definition past_datasets :: "('g world \<Rightarrow> 'b) \<Rightarrow> bool" where
  "past_datasets sel \<longleftrightarrow> (\<forall>w d. sel (w\<lparr>datasets := d\<rparr>) = sel w)"

definition past_mxd :: "('g world \<Rightarrow> 'b) \<Rightarrow> bool" where
  "past_mxd sel \<longleftrightarrow> (\<forall>w d. sel (w\<lparr>mxd := d\<rparr>) = sel w)"

lemma keeps_store: "past_datasets sel \<Longrightarrow> keeps sel (modify (store p t))"
  by (rule keeps_modify) (simp add: past_datasets_def store_def)

lemma keeps_open_dataset: "keeps sel (open_dataset p)"
  by (simp add: open_dataset_def keeps_reading)

lemma keeps_CopyFeatures: "past_datasets sel \<Longrightarrow> keeps sel (CopyFeatures_management a b)"
  unfolding CopyFeatures_management_def by (intro keeps_intros keeps_open_dataset keeps_store)

lemma keeps_AddField: "past_datasets sel \<Longrightarrow> keeps sel (AddField_management a b)"
  unfolding AddField_management_def by (intro keeps_intros keeps_open_dataset keeps_store)

lemma keeps_CreateTable: "past_datasets sel \<Longrightarrow> keeps sel (CreateTable_management a b)"
  unfolding CreateTable_management_def by (intro keeps_store)

lemma keeps_MakeFeatureLayer: "keeps sel (MakeFeatureLayer_management a)"
  unfolding MakeFeatureLayer_management_def by (rule keeps_open_dataset)

lemma keeps_SelectLayer: "keeps sel (SelectLayerByLocation_management gis a b)"
  unfolding SelectLayerByLocation_management_def by (intro keeps_intros keeps_open_dataset)

lemma keeps_Buffer: "past_datasets sel \<Longrightarrow> keeps sel (Buffer_analysis gis a b c)"
  unfolding Buffer_analysis_def by (intro keeps_store)

lemma keeps_Merge: "past_datasets sel \<Longrightarrow> keeps sel (Merge_management a b c)"
  unfolding Merge_management_def by (intro keeps_intros keeps_open_dataset keeps_store)

lemma keeps_Intersect: "past_datasets sel \<Longrightarrow> keeps sel (Intersect_analysis gis a b c)"
  unfolding Intersect_analysis_def by (intro keeps_intros keeps_open_dataset keeps_store)

lemma keeps_JoinField: "past_datasets sel \<Longrightarrow> keeps sel (JoinField_management a b c d)"
  unfolding JoinField_management_def by (intro keeps_intros keeps_open_dataset keeps_store)

lemma keeps_InsertCursor: "past_datasets sel \<Longrightarrow> keeps sel (InsertCursor a b c)"
  unfolding InsertCursor_def by (intro keeps_intros keeps_open_dataset keeps_store)

lemma keeps_add_constant_field: "past_datasets sel \<Longrightarrow> keeps sel (add_constant_field a b c)"
  unfolding add_constant_field_def
  by (intro keeps_intros keeps_open_dataset keeps_store keeps_AddField)

lemma keeps_add_fields: "past_datasets sel \<Longrightarrow> keeps sel (add_fields tbl flds)"
  by (induction tbl flds rule: add_fields.induct)
    (auto intro!: keeps_intros keeps_AddField)

lemma keeps_create_result_table: "past_datasets sel \<Longrightarrow> keeps sel (create_result_table a b c)"
  unfolding create_result_table_def
  by (intro keeps_intros keeps_CreateTable keeps_add_fields)

lemma keeps_dataframe_to_table: "past_datasets sel \<Longrightarrow> keeps sel (dataframe_to_table a b c d)"
  unfolding dataframe_to_table_def by (intro keeps_intros keeps_InsertCursor)

lemma keeps_export_results_table:
  "past_datasets sel \<Longrightarrow> keeps sel (export_results_table self df gdb)"
  unfolding export_results_table_def
  by (intro keeps_intros keeps_create_result_table keeps_dataframe_to_table)

lemma keeps_run_spatial_analysis:
  "past_datasets sel \<Longrightarrow> keeps sel (run_spatial_analysis self gis)"
  unfolding run_spatial_analysis_def
  by (intro keeps_intros keeps_MakeFeatureLayer keeps_SelectLayer keeps_Buffer keeps_CopyFeatures
      keeps_add_constant_field keeps_Merge keeps_Intersect)

lemma keeps_mxd_update:
  "past_mxd sel \<Longrightarrow> keeps sel (modify (\<lambda>w. w\<lparr>mxd := f w\<rparr>))"
  by (rule keeps_modify) (simp add: past_mxd_def)

lemma keeps_replaceDataSource: "past_mxd sel \<Longrightarrow> keeps sel (replaceDataSource a b c d)"
  unfolding replaceDataSource_def by (intro keeps_intros keeps_mxd_update)

lemma keeps_getExtent: "keeps sel (getExtent a b)"
  unfolding getExtent_def by (intro keeps_intros)

lemma keeps_set_extent: "past_mxd sel \<Longrightarrow> keeps sel (set_extent gis a b)"
  unfolding set_extent_def by (intro keeps_intros keeps_mxd_update)

lemma keeps_set_scale: "past_mxd sel \<Longrightarrow> keeps sel (set_scale a b)"
  unfolding set_scale_def by (intro keeps_intros keeps_mxd_update)

lemma keeps_set_text: "past_mxd sel \<Longrightarrow> keeps sel (set_text a b)"
  unfolding set_text_def by (intro keeps_intros keeps_mxd_update)


definition past_files :: "('g world \<Rightarrow> 'b) \<Rightarrow> bool" where
  "past_files sel \<longleftrightarrow> (\<forall>w d. sel (w\<lparr>files := d\<rparr>) = sel w)"

lemma keeps_ExportToPDF: "past_files sel \<Longrightarrow> keeps sel (ExportToPDF p)"
  unfolding ExportToPDF_def by (rule keeps_modify) (simp add: past_files_def)

lemma keeps_saveACopy: "past_files sel \<Longrightarrow> keeps sel (saveACopy p)"
  unfolding saveACopy_def by (rule keeps_modify) (simp add: past_files_def)

lemma keeps_generate_pdf_mxd:
  "past_mxd sel \<Longrightarrow> past_files sel \<Longrightarrow> keeps sel (generate_pdf_mxd self gis fm rl df)"
  unfolding generate_pdf_mxd_def case_prod_beta
  by (intro keeps_intros keeps_replaceDataSource keeps_getExtent keeps_set_extent keeps_set_scale
      keeps_set_text keeps_ExportToPDF keeps_saveACopy)

lemma past_calls: "past_datasets calls" "past_mxd calls" "past_files calls"
  by (simp_all add: past_datasets_def past_mxd_def past_files_def)

definition pipeline :: "stage list" where
  "pipeline = [RunSpatialAnalysis, RunSummaryAnalysis, ExportResultsTable, GeneratePdfMxd]"

definition calls_exactly :: "stage list \<Rightarrow> ('a, 'g world) prog \<Rightarrow> bool" where
  "calls_exactly xs m \<longleftrightarrow>
     (\<forall>w. case m w of
            (Inr a, w') \<Rightarrow> calls w' = calls w @ xs
          | (Inl e, w') \<Rightarrow> (\<exists>n. n \<le> length xs \<and> calls w' = calls w @ take n xs))"

lemma calls_exactly_Inr:
  "calls_exactly xs m \<Longrightarrow> m w = (Inr a, w') \<Longrightarrow> calls w' = calls w @ xs"
  unfolding calls_exactly_def by (drule spec [of _ w]) simp

lemma calls_exactly_Inl:
  "calls_exactly xs m \<Longrightarrow> m w = (Inl e, w') \<Longrightarrow>
   \<exists>n. n \<le> length xs \<and> calls w' = calls w @ take n xs"
  unfolding calls_exactly_def by (drule spec [of _ w]) simp

lemma calls_exactly_keeps: "keeps calls m \<Longrightarrow> calls_exactly [] m"
  by (auto simp: calls_exactly_def keeps_def split: prod.splits sum.splits) (metis snd_conv)+

lemma calls_exactly_invoke:
  assumes "keeps calls m"
  shows "calls_exactly [st] (invoke st m)"
proof -
  have "calls (snd (m (w\<lparr>calls := calls w @ [st]\<rparr>))) = calls w @ [st]" for w
    using assms by (simp add: keeps_def)
  then have c: "m (w\<lparr>calls := calls w @ [st]\<rparr>) = (r, w') \<Longrightarrow> calls w' = calls w @ [st]" for w r w'
    by (metis snd_conv)
  show ?thesis
    unfolding calls_exactly_def invoke_def
  proof
    fix w
    obtain r w' where m: "m (w\<lparr>calls := calls w @ [st]\<rparr>) = (r, w')" by (cases "m (w\<lparr>calls := calls w @ [st]\<rparr>)")
    from c [OF m] have w': "calls w' = calls w @ [st]" .
    show "case m (w\<lparr>calls := calls w @ [st]\<rparr>) of
            (Inr a, w') \<Rightarrow> calls w' = calls w @ [st]
          | (Inl e, w') \<Rightarrow> (\<exists>n. n \<le> length [st] \<and> calls w' = calls w @ take n [st])"
    proof (cases r)
      case (Inl e)
      have "Suc 0 \<le> length [st] \<and> calls w' = calls w @ take (Suc 0) [st]" using w' by simp
      then have "\<exists>n. n \<le> length [st] \<and> calls w' = calls w @ take n [st]" by blast
      with m Inl show ?thesis by simp
    next
      case (Inr a)
      with m w' show ?thesis by simp
    qed
  qed
qed

lemma calls_exactly_bindE:
  assumes m: "calls_exactly xs m" and f: "\<And>a. calls_exactly ys (f a)"
  shows "calls_exactly (xs @ ys) (bindE m f)"
  unfolding calls_exactly_def
proof
  fix w
  obtain r w1 where mw: "m w = (r, w1)" by (cases "m w")
  show "case bindE m f w of
          (Inr a, w') \<Rightarrow> calls w' = calls w @ xs @ ys
        | (Inl e, w') \<Rightarrow> (\<exists>n. n \<le> length (xs @ ys) \<and> calls w' = calls w @ take n (xs @ ys))"
  proof (cases r)
    case (Inl e)
    from calls_exactly_Inl [OF m] mw Inl
    obtain n where n: "n \<le> length xs" "calls w1 = calls w @ take n xs"
      by blast
    then have "n \<le> length (xs @ ys) \<and> calls w1 = calls w @ take n (xs @ ys)" by simp
    then have "\<exists>n. n \<le> length (xs @ ys) \<and> calls w1 = calls w @ take n (xs @ ys)" by blast
    with mw Inl show ?thesis by (simp add: bindE_def)
  next
    case (Inr a)
    from calls_exactly_Inr [OF m] mw Inr have w1: "calls w1 = calls w @ xs"
      by blast
    obtain r2 w2 where fw: "f a w1 = (r2, w2)" by (cases "f a w1")
    show ?thesis
    proof (cases r2)
      case (Inl e)
      from calls_exactly_Inl [OF f] fw Inl
      obtain k where k: "k \<le> length ys" "calls w2 = calls w1 @ take k ys"
        by blast
      with w1 have "length xs + k \<le> length (xs @ ys)
          \<and> calls w2 = calls w @ take (length xs + k) (xs @ ys)" by simp
      then have "\<exists>n. n \<le> length (xs @ ys) \<and> calls w2 = calls w @ take n (xs @ ys)" by blast
      with mw \<open>r = Inr a\<close> fw Inl show ?thesis by (simp add: bindE_def)
    next
      case (Inr b)
      from calls_exactly_Inr [OF f] fw Inr have "calls w2 = calls w1 @ ys"
        by blast
      with w1 mw \<open>r = Inr a\<close> fw Inr show ?thesis by (simp add: bindE_def)
    qed
  qed
qed

lemma calls_quiet_bind:
  "keeps calls m \<Longrightarrow> (\<And>a. calls_exactly ys (f a)) \<Longrightarrow> calls_exactly ys (bindE m f)"
  using calls_exactly_bindE [OF calls_exactly_keeps, of m ys f] by simp

lemma calls_stage_bind:
  "keeps calls m \<Longrightarrow> (\<And>a. calls_exactly ys (f a)) \<Longrightarrow>
   calls_exactly (st # ys) (bindE (invoke st m) f)"
  using calls_exactly_bindE [OF calls_exactly_invoke, of m ys f st] by simp

lemma keeps_create_gdb:
  "keeps calls (\<lambda>w. if \<not> Exists output_gdb w
                 then bindE (liftE (value_of self ''out_folder''))
                        (\<lambda>folder. CreateFileGDB_management folder ''results.gdb'') w
                 else ret () w)"
proof -
  have "keeps calls (bindE (liftE (value_of self ''out_folder''))
                        (\<lambda>folder. CreateFileGDB_management folder ''results.gdb''))"
    unfolding CreateFileGDB_management_def
    by (intro keeps_intros keeps_modify) simp
  then show ?thesis using keeps_ret [of calls "()"] by (auto simp: keeps_def)
qed

lemma run_calls_exactly: "calls_exactly pipeline (run self gis fm)"
  unfolding run_def Let_def pipeline_def
  apply (rule calls_quiet_bind [OF keeps_liftE])
  apply (rule calls_quiet_bind [OF keeps_liftE])
  apply (rule calls_quiet_bind [OF keeps_create_gdb])
  apply (rule calls_stage_bind [OF keeps_run_spatial_analysis [OF past_calls(1)]])
  apply (rule calls_stage_bind [OF keeps_reading])
  apply (rule calls_stage_bind [OF keeps_export_results_table [OF past_calls(1)]])
  apply (rule calls_quiet_bind [OF keeps_liftE])
  apply (rule calls_quiet_bind [OF keeps_CopyFeatures [OF past_calls(1)]])
  apply (rule calls_quiet_bind [OF keeps_JoinField [OF past_calls(1)]])
  apply (rule calls_exactly_invoke [OF keeps_generate_pdf_mxd [OF past_calls(2,3)]])
  done


section \<open>What a completed run leaves behind\<close>

text \<open>
  \<open>returns P m Q\<close>: when \<open>m\<close> is started in a state that satisfies \<open>P\<close> and returns a value,
  the value and the state it leaves satisfy \<open>Q\<close>. Nothing is said of a run of \<open>m\<close> that
  raises an exception.
\<close>

definition returns :: "('s \<Rightarrow> bool) \<Rightarrow> ('a, 's) prog \<Rightarrow> ('a \<Rightarrow> 's \<Rightarrow> bool) \<Rightarrow> bool" where
  "returns P m Q \<longleftrightarrow> (\<forall>s a s'. P s \<and> m s = (Inr a, s') \<longrightarrow> Q a s')"

definition result_columns :: "(string \<times> string) list" where
  "result_columns =
     [(''watershed_area'', ''Watershed Area Sqr KM''),
      (''proposed_road_length'', ''Proposed Road Length Near Streams KM''),
      (''existing_road_length'', ''Existing Road Length Near Streams KM''),
      (''total_road_length'', ''Total (proposed and existing) Road Length Near Streams KM''),
      (''original_road_density'', ''Existing Road Density Near Streams KM/KM2''),
      (''future_road_density'', ''Future Road Density Near Streams KM/KM2'')]"

lemma returnsI: "(\<And>s a s'. P s \<Longrightarrow> m s = (Inr a, s') \<Longrightarrow> Q a s') \<Longrightarrow> returns P m Q"
  unfolding returns_def by blast

lemma returnsD: "returns P m Q \<Longrightarrow> P s \<Longrightarrow> m s = (Inr a, s') \<Longrightarrow> Q a s'"
  by (simp add: returns_def)

lemma bindE_Inr:
  assumes "bindE m f s = (Inr b, s')"
  obtains a s1 where "m s = (Inr a, s1)" and "f a s1 = (Inr b, s')"
  using assms by (auto simp: bindE_def split: prod.splits sum.splits)

lemma returns_bindE:
  assumes "returns P m R" and "\<And>a. returns (R a) (f a) Q"
  shows "returns P (bindE m f) Q"
proof (rule returnsI)
  fix s b s'
  assume P: "P s" and run: "bindE m f s = (Inr b, s')"
  from run obtain a s1 where m: "m s = (Inr a, s1)" and f: "f a s1 = (Inr b, s')"
    by (rule bindE_Inr)
  from returnsD [OF assms(1) P m] have "R a s1" .
  from returnsD [OF assms(2) this f] show "Q b s'" .
qed

lemma returns_any: "returns P m (\<lambda>a s. True)"
  by (simp add: returns_def)

lemma returns_weaken: "returns P m Q \<Longrightarrow> (\<And>s. P' s \<Longrightarrow> P s) \<Longrightarrow> returns P' m Q"
  by (auto simp: returns_def)

lemma returns_after: "(\<And>a. returns (\<lambda>s. True) (f a) Q) \<Longrightarrow> returns P (bindE m f) Q"
  by (rule returns_bindE [OF returns_any]) (auto simp: returns_def)

lemma returns_conj:
  "returns P m Q \<Longrightarrow> returns P m Q' \<Longrightarrow> returns P m (\<lambda>a s. Q a s \<and> Q' a s)"
  by (auto simp: returns_def)

lemma returns_keeps: "keeps sel m \<Longrightarrow> returns (\<lambda>s. T (sel s)) m (\<lambda>a s. T (sel s))"
  by (auto simp: returns_def keeps_def) (metis snd_conv)

lemma returns_invoke:
  "returns (\<lambda>s. True) m Q \<Longrightarrow> returns (\<lambda>s. True) (invoke st m) Q"
  by (auto simp: returns_def invoke_def)

lemma keeps_invoke:
  "keeps sel m \<Longrightarrow> (\<And>w c. sel (w\<lparr>calls := c\<rparr>) = sel w) \<Longrightarrow> keeps sel (invoke st m)"
  by (simp add: keeps_def invoke_def)

subsection \<open>The table\<close>

lemma keeps_store_other: "q \<noteq> p \<Longrightarrow> keeps (\<lambda>w. dataset w p) (modify (store q t))"
  by (rule keeps_modify) (simp add: dataset_store)

lemma past_dataset:
  "past_mxd (\<lambda>w. dataset w p)" "past_files (\<lambda>w. dataset w p)"
  by (simp_all add: past_mxd_def past_files_def dataset_def)

lemma keeps_CopyFeatures_other:
  "q \<noteq> p \<Longrightarrow> keeps (\<lambda>w. dataset w p) (CopyFeatures_management a q)"
  unfolding CopyFeatures_management_def
  by (intro keeps_intros keeps_open_dataset keeps_store_other)

lemma keeps_JoinField_other:
  "q \<noteq> p \<Longrightarrow> keeps (\<lambda>w. dataset w p) (JoinField_management q a b c)"
  unfolding JoinField_management_def
  by (intro keeps_intros keeps_open_dataset keeps_store_other)

lemma get_field_definition_name:
  assumes "get_field_definition w tbl k = Inr (Some kd)"
  shows "field_name kd = k"
proof -
  from assms obtain fs where "(case filter (\<lambda>i. field_name i = k) fs of [] \<Rightarrow> None | f # r \<Rightarrow> Some f)
      = Some kd"
    by (auto simp: get_field_definition_def bindS_def split: sum.splits)
  then obtain r where "filter (\<lambda>i. field_name i = k) fs = kd # r"
    by (auto split: list.splits)
  then have "kd \<in> set (filter (\<lambda>i. field_name i = k) fs)" by simp
  then show ?thesis by simp
qed

lemma AddField_run:
  "dataset w p = Some t \<Longrightarrow>
   bindE (AddField_management p fld) f w = f () (store p (add_field fld t) w)"
  by (simp add: AddField_management_def bindE_assoc bindE_open_dataset bindE_modify)

lemma add_field_new:
  "field_name fld \<notin> set (map field_name sch) \<Longrightarrow>
   add_field fld \<lparr>schema = sch, rows = rs\<rparr> = \<lparr>schema = sch @ [fld], rows = rs\<rparr>"
  by (simp add: add_field_def field_names_def)

lemma create_result_table_run:
  assumes "field_name kd \<notin> set (map fst result_columns)"
  shows "\<exists>w'. create_result_table ws n (Some kd) w = (Inr (os_path_join ws n), w')
     \<and> dataset w' (os_path_join ws n)
         = Some \<lparr>schema = kd # map (\<lambda>(c, a). double_field c a) result_columns, rows = []\<rparr>"
proof -
  from assms have k: "''watershed_area'' \<noteq> field_name kd"
    "''proposed_road_length'' \<noteq> field_name kd" "''existing_road_length'' \<noteq> field_name kd"
    "''total_road_length'' \<noteq> field_name kd" "''original_road_density'' \<noteq> field_name kd"
    "''future_road_density'' \<noteq> field_name kd"
    by (auto simp: result_columns_def)
  have "create_result_table ws n (Some kd) w = (Inr (os_path_join ws n),
      snd (create_result_table ws n (Some kd) w))"
    unfolding create_result_table_def CreateTable_management_def
    by (simp add: bindE_assoc bindE_modify AddField_run dataset_store) (simp add: ret_def)
  moreover have "dataset (snd (create_result_table ws n (Some kd) w)) (os_path_join ws n)
         = Some \<lparr>schema = kd # map (\<lambda>(c, a). double_field c a) result_columns, rows = []\<rparr>"
    unfolding create_result_table_def CreateTable_management_def
    by (simp add: bindE_assoc bindE_modify AddField_run dataset_store)
      (simp add: ret_def dataset_store add_field_new k result_columns_def double_field_def)
  ultimately show ?thesis by blast
qed

definition has_result_schema :: "string \<Rightarrow> 'g table option \<Rightarrow> bool" where
  "has_result_schema key_field d =
     (case d of None \<Rightarrow> False
      | Some t \<Rightarrow> (case schema t of [] \<Rightarrow> False
          | kd # rest \<Rightarrow> field_name kd = key_field
              \<and> rest = map (\<lambda>(c, a). double_field c a) result_columns))"

lemma kept_table_bind:
  assumes "keeps (\<lambda>w. dataset w p) m"
    and "\<And>a. returns (\<lambda>s. has_result_schema k (dataset s p)) (f a) Q"
  shows "returns (\<lambda>s. has_result_schema k (dataset s p)) (bindE m f) Q"
  using returns_bindE [OF returns_keeps [OF assms(1), of "has_result_schema k"], of f Q] assms(2)
  by simp

lemma kept_files_bind:
  assumes "keeps files m"
    and "\<And>a. returns (\<lambda>s. files s = F) (f a) Q"
  shows "returns (\<lambda>s. files s = F) (bindE m f) Q"
  using returns_bindE [OF returns_keeps [OF assms(1), of "\<lambda>x. x = F"], of f Q] assms(2)
  by simp

lemma InsertCursor_schema:
  assumes "InsertCursor p names results w = (Inr u, w')" and "dataset w p = Some t"
  shows "\<exists>t'. dataset w' p = Some t' \<and> schema t' = schema t"
proof -
  from assms have "(if list_all (\<lambda>n. n \<in> set (field_names t)) names
       then modify (store p
              (t\<lparr>rows := rows t @ map (\<lambda>row. \<lparr>attrs = zip names row, shape = None\<rparr>) results\<rparr>))
       else raise RuntimeError) w = (Inr u, w')"
    by (simp add: InsertCursor_def bindE_open_dataset)
  then show ?thesis
    by (auto simp: modify_def raise_def dataset_store split: if_splits)
qed

lemma export_results_table_returns:
  assumes key: "value_of self ''in_watershed_id'' = Inr key_field"
    and new: "key_field \<notin> set (map fst result_columns)"
  shows "returns (\<lambda>s. True) (export_results_table self df gdb)
           (\<lambda>a s. has_result_schema key_field (dataset s (os_path_join gdb ''Results'')))"
proof (rule returnsI)
  fix s a s'
  let ?p = "os_path_join gdb ''Results''"
  assume "export_results_table self df gdb s = (Inr a, s')"
  then have run: "bindE (liftE (value_of self ''in_watershed'')) (\<lambda>in_watershed.
     bindE (reading (\<lambda>w. get_field_definition w in_watershed key_field)) (\<lambda>key_field_definition.
     bindE (create_result_table gdb ''Results'' key_field_definition) (\<lambda>_.
     bindE (dataframe_to_table key_field df ?p
              [key_field, ''watershed_area'', ''existing_road_length'', ''proposed_road_length'',
               ''total_road_length'', ''original_road_density'', ''future_road_density'']) (\<lambda>_.
       ret ?p)))) s = (Inr a, s')"
    by (simp add: export_results_table_def key)
  from run obtain in_ws s1 where
    r1: "bindE (reading (\<lambda>w. get_field_definition w in_ws key_field)) (\<lambda>key_field_definition.
     bindE (create_result_table gdb ''Results'' key_field_definition) (\<lambda>_.
     bindE (dataframe_to_table key_field df ?p
              [key_field, ''watershed_area'', ''existing_road_length'', ''proposed_road_length'',
               ''total_road_length'', ''original_road_density'', ''future_road_density'']) (\<lambda>_.
       ret ?p))) s1 = (Inr a, s')"
    by (rule bindE_Inr)
  from r1 obtain kfd s2 where
    g: "reading (\<lambda>w. get_field_definition w in_ws key_field) s1 = (Inr kfd, s2)"
    and r2: "bindE (create_result_table gdb ''Results'' kfd) (\<lambda>_.
     bindE (dataframe_to_table key_field df ?p
              [key_field, ''watershed_area'', ''existing_road_length'', ''proposed_road_length'',
               ''total_road_length'', ''original_road_density'', ''future_road_density'']) (\<lambda>_.
       ret ?p)) s2 = (Inr a, s')"
    by (rule bindE_Inr)
  from r2 obtain q s3 where
    c: "create_result_table gdb ''Results'' kfd s2 = (Inr q, s3)"
    and r3: "bindE (dataframe_to_table key_field df ?p
              [key_field, ''watershed_area'', ''existing_road_length'', ''proposed_road_length'',
               ''total_road_length'', ''original_road_density'', ''future_road_density'']) (\<lambda>_.
       ret ?p) s3 = (Inr a, s')"
    by (rule bindE_Inr)
  from r3 obtain u s4 where
    d: "dataframe_to_table key_field df ?p
              [key_field, ''watershed_area'', ''existing_road_length'', ''proposed_road_length'',
               ''total_road_length'', ''original_road_density'', ''future_road_density''] s3
          = (Inr u, s4)"
    and r4: "ret ?p s4 = (Inr a, s')"
    by (rule bindE_Inr)
  from r4 have s': "s' = s4" by (simp add: ret_def)
  from g have gd: "get_field_definition s1 in_ws key_field = Inr kfd"
    by (auto simp: reading_def split: sum.splits)
  have "kfd \<noteq> None"
  proof
    assume "kfd = None"
    with c show False
      by (simp add: create_result_table_def CreateTable_management_def bindE_assoc bindE_modify)
        (simp add: bindE_def raise_def)
  qed
  then obtain kd where kd: "kfd = Some kd" by blast
  from gd kd have name: "field_name kd = key_field" by (simp add: get_field_definition_name)
  from create_result_table_run [of kd gdb "''Results''" s2] new name c kd
  have t3: "dataset s3 ?p
      = Some \<lparr>schema = kd # map (\<lambda>(c, a). double_field c a) result_columns, rows = []\<rparr>"
    by auto
  from d obtain vals where ins: "InsertCursor ?p
      [key_field, ''watershed_area'', ''existing_road_length'', ''proposed_road_length'',
       ''total_road_length'', ''original_road_density'', ''future_road_density''] vals s3
          = (Inr u, s4)"
    by (auto simp: dataframe_to_table_def raise_def split: if_splits)
  from InsertCursor_schema [OF ins t3] obtain t' where
    "dataset s4 ?p = Some t'"
    "schema t' = kd # map (\<lambda>(c, a). double_field c a) result_columns"
    by auto
  with name s' show "has_result_schema key_field (dataset s' ?p)"
    by (simp add: has_result_schema_def)
qed

subsection \<open>The report\<close>

lemma past_mxd_files: "past_mxd files"
  by (simp add: past_mxd_def)

lemma save_report:
  "returns (\<lambda>s. files s = F) (bindE (ExportToPDF pdf) (\<lambda>_. saveACopy mxd_path))
     (\<lambda>a s. \<exists>doc. files s = (mxd_path, MXD doc) # (pdf, PDF doc) # F)"
  by (rule returnsI) (auto simp: bindE_def ExportToPDF_def saveACopy_def modify_def)

lemma generate_pdf_mxd_files:
  assumes out: "value_of self ''out_folder'' = Inr out_folder"
  shows "returns (\<lambda>s. files s = F) (generate_pdf_mxd self gis fm result_layer result_df)
     (\<lambda>a s. \<exists>doc. files s = (os_path_join out_folder ''result.mxd'', MXD doc)
                        # (os_path_join out_folder ''result.pdf'', PDF doc) # F)"
proof -
  note pm = past_mxd_files
  show ?thesis
    unfolding generate_pdf_mxd_def case_prod_beta
    apply (rule kept_files_bind [OF keeps_replaceDataSource [OF pm]])
    apply (rule kept_files_bind [OF keeps_replaceDataSource [OF pm]])
    apply (rule kept_files_bind [OF keeps_liftE])
    apply (rule kept_files_bind [OF keeps_replaceDataSource [OF pm]])
    apply (rule kept_files_bind [OF keeps_getExtent])
    apply (rule kept_files_bind [OF keeps_set_extent [OF pm]])
    apply (rule kept_files_bind [OF keeps_set_extent [OF pm]])
    apply (rule kept_files_bind [OF keeps_reading])
    apply (rule kept_files_bind [OF keeps_liftE])
    apply (rule kept_files_bind [OF keeps_set_scale [OF pm]])
    apply (rule kept_files_bind [OF keeps_set_scale [OF pm]])
    apply (rule kept_files_bind [OF keeps_liftE])
    apply (rule kept_files_bind [OF keeps_set_text [OF pm]])
    apply (rule kept_files_bind [OF keeps_liftE])
    apply (rule kept_files_bind [OF keeps_set_text [OF pm]])
    apply (simp only: out bindE_liftE)
    apply (rule kept_files_bind [OF keeps_liftE])
    apply (rule save_report)
    done
qed

lemma kept_table:
  "keeps (\<lambda>w. dataset w p) m \<Longrightarrow>
   returns (\<lambda>s. has_result_schema k (dataset s p)) m (\<lambda>a s. has_result_schema k (dataset s p))"
  by (rule returns_keeps [of "\<lambda>w. dataset w p" m "has_result_schema k"])

lemma generate_pdf_mxd_report:
  assumes out: "value_of self ''out_folder'' = Inr out_folder"
  shows "returns P (invoke st (generate_pdf_mxd self gis fm result_layer result_df))
     (\<lambda>a s. \<exists>doc fs. files s = (os_path_join out_folder ''result.mxd'', MXD doc)
                        # (os_path_join out_folder ''result.pdf'', PDF doc) # fs)"
proof (rule returnsI)
  fix s a s'
  assume "invoke st (generate_pdf_mxd self gis fm result_layer result_df) s = (Inr a, s')"
  then have g: "generate_pdf_mxd self gis fm result_layer result_df (s\<lparr>calls := calls s @ [st]\<rparr>)
      = (Inr a, s')"
    by (simp add: invoke_def)
  from returnsD [OF generate_pdf_mxd_files [OF out, of "files (s\<lparr>calls := calls s @ [st]\<rparr>)"] refl g]
  show "\<exists>doc fs. files s' = (os_path_join out_folder ''result.mxd'', MXD doc)
                        # (os_path_join out_folder ''result.pdf'', PDF doc) # fs"
    by blast
qed

lemma run_returns:
  assumes key: "value_of self ''in_watershed_id'' = Inr key_field"
    and out: "value_of self ''out_folder'' = Inr out_folder"
    and new: "key_field \<notin> set (map fst result_columns)"
  shows "returns (\<lambda>s. True) (run self gis fm)
     (\<lambda>a s. has_result_schema key_field
               (dataset s (os_path_join (os_path_join out_folder ''results.gdb'') ''Results''))
          \<and> (\<exists>doc fs. files s = (os_path_join out_folder ''result.mxd'', MXD doc)
                        # (os_path_join out_folder ''result.pdf'', PDF doc) # fs))"
  unfolding run_def Let_def
  apply (simp only: key out bindE_liftE)
  apply (rule returns_after)
  apply (rule returns_after)
  apply (rule returns_after)
  apply (rule returns_bindE [OF returns_invoke [OF export_results_table_returns [OF key new]]])
  apply (rule kept_table_bind [OF keeps_liftE])
  apply (rule kept_table_bind [OF keeps_CopyFeatures_other])
   apply simp
  apply (rule kept_table_bind [OF keeps_JoinField_other])
   apply simp
  apply (rule returns_conj)
   apply (rule kept_table [OF keeps_invoke [OF keeps_generate_pdf_mxd [OF past_dataset]]])
   apply (simp add: dataset_def)
  apply (rule generate_pdf_mxd_report [OF out])
  done



lemma example_run:
  "\<exists>w'. run example_tool example_gis example_fmt example_world = (Inr (), w')"
  by (simp add: ret_def raise_def bindE_def liftE_def reading_def modify_def bindS_def invoke_def
      dataset_def store_def open_dataset_def Exists_def CreateFileGDB_management_def
      CopyFeatures_management_def add_field_def AddField_management_def CreateTable_management_def
      MakeFeatureLayer_management_def shapes_intersect_def SelectLayerByLocation_management_def
      Buffer_analysis_def buffer_rows_def merge_fields_def Merge_management_def overlay_def
      intersect_rows_def Intersect_analysis_def join_row_def JoinField_management_def is_token_def
      cursor_value_def readable_def SearchCursor_def InsertCursor_def dict_get_def attr_of_def
      set_field_def field_names_def replaceDataSource_def getExtent_def set_extent_def
      set_scale_def set_text_def ExportToPDF_def saveACopy_def
      get_param_by_name_def value_of_def add_constant_field_def ListFields_def
      table_to_dataframe_def get_field_definition_def double_field_def create_result_table_def
      os_path_join_def is_sep_def os_path_split_def splitdrive_def export_results_table_def
      dataframe_to_table_def frame_columns_def column_value_def generate_pdf_mxd_def
      simple_report_def report_values_def report_items_def report_header_def format_row_def
      change_in_density_def ljust_def desc_before_def calculate_def py_fdiv_def get_map_scale_def
      scaleround_def py_int_def str_int_def str_nat.simps digit_char_def
      run_summary_analysis_def run_spatial_analysis_def run_def
      sorted_keys_def sort_by_def agg_sum_def fillna0_def road_rows_def
      pivot_table_def area_rows_def groupby_sum_def merge_outer_def column_def
      example_tool_def example_gis_def example_world_def example_fmt_def
      example_streams_def example_sheds_def example_roads_def example_new_def text_field_def
      Let_def)

lemma example_out: "value_of example_tool ''out_folder'' = Inr ''out''"
  by (simp add: value_of_def get_param_by_name_def example_tool_def)



end
